theory Spec2Isabelle
  imports Complex_Main "HOL-Library.Word"
begin

unbundle bit_operations_syntax

section \<open>Data model\<close>

text \<open>
  Exceptions of the Python sources, by class. \<open>SystemExit\<close> is what \<^verbatim>\<open>exit()\<close>
  raises; it is not a subclass of \<^verbatim>\<open>Exception\<close>. Every other constructor is one.
\<close>

datatype py_error = SystemExit | AttributeError | IndexError | ValueError | CvError | OtherError

text \<open>
  What a handler \<^verbatim>\<open>except Exception\<close> catches. An exception it does not catch leaves
  the \<^verbatim>\<open>try\<close> statement and, in the functions below, the function.
\<close>

definition is_Exception :: "py_error \<Rightarrow> bool" where
  "is_Exception e \<longleftrightarrow> e \<noteq> SystemExit"

text \<open>
  A Python/numpy float: a number or NaN. Infinities do not occur in the values
  modelled here (pixel intensities divided by 255 and interpolations of them).
  The one division computed here, an intensity by 255, is taken exactly; its result
  is only handed to \<^verbatim>\<open>griddata\<close>, a parameter.
\<close>

datatype pyfloat = Fl real | NaN

text \<open>
  An 8-bit image as an OpenCV matrix: rows, columns, channels. A grayscale image or a
  mask has one channel per pixel, a BGR image three. \<open>gray\<close> is a plain 2-D numpy array
  of uint8, as \<^verbatim>\<open>cv2.cvtColor(..., COLOR_BGR2GRAY)\<close> returns it.
\<close>

type_synonym image = "8 word list list list"
type_synonym gray = "8 word list list"
type_synonym farray = "pyfloat list list"

text \<open>A detection box \<^verbatim>\<open>(x, y, w, h)\<close> and a blob keypoint with its centre \<^verbatim>\<open>kp.pt\<close>.\<close>

type_synonym face = "int \<times> int \<times> int \<times> int"
type_synonym keypoint = "real \<times> real"

section \<open>Python and numpy primitives\<close>

text \<open>\<^verbatim>\<open>int(x)\<close> on a float truncates towards zero.\<close>

definition py_int :: "real \<Rightarrow> int" where
  "py_int r = (if 0 \<le> r then \<lfloor>r\<rfloor> else \<lceil>r\<rceil>)"

text \<open>
  The sum of two int32 numpy scalars, such as \<^verbatim>\<open>fx + fw\<close> for the entries of a
  detection box: it wraps around (numpy warns and does not raise).
\<close>

definition int32_add :: "int \<Rightarrow> int \<Rightarrow> int" where
  "int32_add a b = sint (word_of_int (a + b) :: 32 word)"

text \<open>
  A Python slice \<^verbatim>\<open>xs[lo:hi]\<close>: a negative bound counts from the end, and bounds are
  clipped to the list; a slice never raises.
\<close>

definition slice_bound :: "int \<Rightarrow> nat \<Rightarrow> nat" where
  "slice_bound i n = (if i < 0 then nat (max 0 (i + int n)) else min (nat i) n)"

definition py_slice :: "int \<Rightarrow> int \<Rightarrow> 'a list \<Rightarrow> 'a list" where
  "py_slice lo hi xs =
     (let a = slice_bound lo (length xs); b = slice_bound hi (length xs)
      in take (b - a) (drop a xs))"

text \<open>\<^verbatim>\<open>a[y0:y1, x0:x1]\<close> on a 2-D (or 3-D) array.\<close>

definition crop :: "int \<Rightarrow> int \<Rightarrow> int \<Rightarrow> int \<Rightarrow> 'a list list \<Rightarrow> 'a list list" where
  "crop y0 y1 x0 x1 a = map (py_slice x0 x1) (py_slice y0 y1 a)"

text \<open>\<^verbatim>\<open>a.shape[:2]\<close>: the number of rows and the length of a row.\<close>

definition shape2 :: "'a list list \<Rightarrow> int \<times> int" where
  "shape2 a = (int (length a), (case a of [] \<Rightarrow> 0 | r # _ \<Rightarrow> int (length r)))"

text \<open>
  \<^verbatim>\<open>a[y, x]\<close> with non-negative indices on a 2-D array: IndexError out of range.
\<close>

definition index2 :: "'a list list \<Rightarrow> int \<Rightarrow> int \<Rightarrow> py_error + 'a" where
  "index2 a y x =
     (if 0 \<le> y \<and> nat y < length a \<and> 0 \<le> x \<and> nat x < length (a ! nat y)
      then Inr (a ! nat y ! nat x) else Inl IndexError)"

text \<open>\<^verbatim>\<open>cv2.bitwise_not\<close> on a uint8 array returns a new array, every pixel complemented.\<close>

definition bitwise_not :: "gray \<Rightarrow> gray" where
  "bitwise_not g = map (map (\<lambda>v. NOT v)) g"

text \<open>
  Python's \<^verbatim>\<open>sorted(xs, key=k, reverse=True)\<close>: the list is reversed, sorted stably
  in ascending order of the key, and reversed again, so equal keys keep their order.
\<close>

definition sorted_reverse :: "('a \<Rightarrow> int) \<Rightarrow> 'a list \<Rightarrow> 'a list" where
  "sorted_reverse k xs = rev (sort_key k (rev xs))"

section \<open>Arrays in memory\<close>

text \<open>
  numpy arrays are objects: a name holds a reference, \<^verbatim>\<open>.copy()\<close> and every OpenCV
  call without a destination argument make a new array, and the drawing functions
  write into the array they are given. The store maps an address to the array that
  lives there; \<open>fresh\<close> is the first address not yet handed out. \<open>blur_calls\<close>
  records the kernel size of every call of \<^verbatim>\<open>cv2.GaussianBlur\<close>, in call order.
\<close>

type_synonym addr = nat

record world =
  cells :: "addr \<Rightarrow> image"
  fresh :: addr
  blur_calls :: "(int \<times> int) list"

text \<open>A new array object holding \<open>img\<close>.\<close>

definition alloc :: "image \<Rightarrow> world \<Rightarrow> addr \<times> world" where
  "alloc img w = (fresh w, w\<lparr>cells := (cells w)(fresh w := img), fresh := Suc (fresh w)\<rparr>)"

text \<open>An in-place write: the array at \<open>a\<close> now holds \<open>img\<close>.\<close>

definition store_at :: "addr \<Rightarrow> image \<Rightarrow> world \<Rightarrow> world" where
  "store_at a img w = w\<lparr>cells := (cells w)(a := img)\<rparr>"

section \<open>OpenCV operations with a fixed meaning\<close>

text \<open>The shape of an image: the channel count of every pixel, row by row.\<close>

definition shape3 :: "image \<Rightarrow> nat list list" where
  "shape3 img = map (map length) img"

text \<open>\<^verbatim>\<open>np.zeros((h, w), dtype=np.uint8)\<close>, a one-channel image.\<close>

definition zeros :: "int \<Rightarrow> int \<Rightarrow> image" where
  "zeros h w = replicate (nat h) (replicate (nat w) [0])"

text \<open>
  \<^verbatim>\<open>cv2.bitwise_and(src1, src2)\<close>: the element-wise conjunction in a new array;
  \<^verbatim>\<open>cv2.error\<close> when the shapes differ. (OpenCV reads an operand of a single pixel
  as a scalar when the shapes differ; the generator calls the function on two arrays
  that \<^verbatim>\<open>cv2.resize\<close> made of one size, and that reading is not modelled.)
\<close>

definition bitwise_and :: "image \<Rightarrow> image \<Rightarrow> py_error + image" where
  "bitwise_and src1 src2 =
     (if shape3 src1 = shape3 src2
      then Inr (map2 (map2 (map2 (\<lambda>a b. a AND b))) src1 src2)
      else Inl CvError)"

text \<open>
  \<^verbatim>\<open>cv2.bitwise_and(src1, src2, mask=mask)\<close>: a new array that holds the conjunction
  where the one-channel mask is not zero and zero elsewhere; \<^verbatim>\<open>cv2.error\<close> when the
  sources differ in shape or the mask is not a one-channel array of their size.
\<close>

definition bitwise_and_mask :: "image \<Rightarrow> image \<Rightarrow> image \<Rightarrow> py_error + image" where
  "bitwise_and_mask src1 src2 msk =
     (if shape3 src1 = shape3 src2 \<and> map length msk = map length src1
         \<and> list_all (list_all (\<lambda>m. length m = 1)) msk
      then Inr (map2 (\<lambda>(r1, r2) rm.
                  map2 (\<lambda>(p1, p2) m.
                    if m \<noteq> [0] then map2 (\<lambda>a b. a AND b) p1 p2 else map (\<lambda>_. 0) p1)
                  (zip r1 r2) rm)
                (zip src1 src2) msk)
      else Inl CvError)"

text \<open>\<^verbatim>\<open>cv2.cvtColor(m, cv2.COLOR_GRAY2BGR)\<close>: the single channel three times.\<close>

definition cvtColor_GRAY2BGR :: "image \<Rightarrow> py_error + image" where
  "cvtColor_GRAY2BGR m =
     (if list_all (list_all (\<lambda>p. length p = 1)) m
      then Inr (map (map (\<lambda>p. p @ p @ p)) m)
      else Inl CvError)"

text \<open>
  A filled shape drawn in place with colour \<open>v\<close>: the pixels the rasteriser covers take
  the colour in every channel, the others keep their value.
\<close>

definition paint :: "(int \<Rightarrow> int \<Rightarrow> bool) \<Rightarrow> 8 word \<Rightarrow> image \<Rightarrow> image" where
  "paint covered v img =
     map (\<lambda>(y, row).
            map (\<lambda>(x, px). if covered (int y) (int x) then map (\<lambda>_. v) px else px)
              (enumerate 0 row))
       (enumerate 0 img)"

text \<open>\<^verbatim>\<open>mask.fill(255)\<close>, in place.\<close>

definition fill :: "8 word \<Rightarrow> image \<Rightarrow> image" where
  "fill v img = map (map (map (\<lambda>_. v))) img"

section \<open>The pseudo-depth generator\<close>

text \<open>
  The OpenCV functions whose result is not fixed here, as parameters. A function
  returns \<open>Inl\<close> when the call raises. \<open>cv_ellipse\<close> gives the pixels \<open>(y, x)\<close> a filled
  ellipse with the given centre and axes covers; \<open>cv_resize\<close> takes the target size and
  whether the interpolation is nearest-neighbour. \<open>half_scaled n s\<close> is the value of
  \<^verbatim>\<open>int((n / 2) * s)\<close> in Python's binary floating point, which is not OpenCV's but
  is not fixed here either.
\<close>

record cv2 =
  cv_GaussianBlur :: "image \<Rightarrow> int \<times> int \<Rightarrow> real \<Rightarrow> py_error + image"
  cv_normalize :: "image \<Rightarrow> image"
  cv_ellipse :: "image \<Rightarrow> int \<times> int \<Rightarrow> int \<times> int \<Rightarrow> py_error + (int \<Rightarrow> int \<Rightarrow> bool)"
  cv_resize :: "image \<Rightarrow> int \<times> int \<Rightarrow> bool \<Rightarrow> py_error + image"
  cv_applyColorMap :: "image \<Rightarrow> int \<Rightarrow> py_error + image"
  cv_convertScaleAbs :: "image \<Rightarrow> real \<Rightarrow> real \<Rightarrow> py_error + image"
  half_scaled :: "int \<Rightarrow> real \<Rightarrow> int"

text \<open>The keyword arguments of \<^verbatim>\<open>_create_single_pseudo_depth_map\<close>.\<close>

record pd_args =
  target_display_size :: "int \<times> int"
  blur_kernel_size :: "int \<times> int"
  blur_sigma :: real
  ellipse_scale_x :: real
  ellipse_scale_y :: real
  apply_colormap :: bool
  invert_colormap :: bool
  colormap_type :: int
  brightness_alpha :: real
  brightness_beta :: real
  final_blur_kernel_size :: "int \<times> int"
  final_blur_sigma :: real

text \<open>
  A call \<^verbatim>\<open>cv2.GaussianBlur(src, ksize, sigma)\<close>: the kernel size is recorded, and the
  result, when there is one, is a new array.
\<close>

definition call_GaussianBlur ::
  "cv2 \<Rightarrow> addr \<Rightarrow> int \<times> int \<Rightarrow> real \<Rightarrow> world \<Rightarrow> (py_error + addr) \<times> world" where
  "call_GaussianBlur cv src ksize sigma w =
     (let w1 = w\<lparr>blur_calls := blur_calls w @ [ksize]\<rparr> in
      case cv_GaussianBlur cv (cells w1 src) ksize sigma of
        Inl e \<Rightarrow> (Inl e, w1)
      | Inr dst \<Rightarrow> (case alloc dst w1 of (a, w2) \<Rightarrow> (Inr a, w2)))"

text \<open>
  Step 1. Only \<^verbatim>\<open>cv2.error\<close> is caught; then \<^verbatim>\<open>blurred_roi = face_roi\<close>, the same
  array object.
\<close>

definition pd_blur :: "cv2 \<Rightarrow> pd_args \<Rightarrow> addr \<Rightarrow> world \<Rightarrow> (py_error + addr) \<times> world" where
  "pd_blur cv args face_roi w =
     (let k_w = (if fst (blur_kernel_size args) mod 2 \<noteq> 0 then fst (blur_kernel_size args)
                 else fst (blur_kernel_size args) + 1);
          k_h = (if snd (blur_kernel_size args) mod 2 \<noteq> 0 then snd (blur_kernel_size args)
                 else snd (blur_kernel_size args) + 1)
      in case call_GaussianBlur cv face_roi (k_w, k_h) (blur_sigma args) w of
           (Inl e, w1) \<Rightarrow> if e = CvError then (Inr face_roi, w1) else (Inl e, w1)
         | (Inr blurred_roi, w1) \<Rightarrow> (Inr blurred_roi, w1))"

text \<open>
  Step 3. The mask is a new array of zeros; the ellipse is drawn into it, or, when
  drawing raises \<^verbatim>\<open>cv2.error\<close>, it is filled with 255.
\<close>

definition pd_mask :: "cv2 \<Rightarrow> pd_args \<Rightarrow> addr \<Rightarrow> world \<Rightarrow> (py_error + addr) \<times> world" where
  "pd_mask cv args data_for_plotting w =
     (case shape2 (cells w data_for_plotting) of (h, wd) \<Rightarrow>
     (case alloc (zeros h wd) w of (msk, w1) \<Rightarrow>
        (let center_x = wd div 2; center_y = h div 2;
             axis_x = max 1 (half_scaled cv wd (ellipse_scale_x args));
             axis_y = max 1 (half_scaled cv h (ellipse_scale_y args))
         in (case cv_ellipse cv (cells w1 msk) (center_x, center_y) (axis_x, axis_y) of
               Inr covered \<Rightarrow> (Inr msk, store_at msk (paint covered 255 (cells w1 msk)) w1)
             | Inl e \<Rightarrow>
                 if e = CvError then (Inr msk, store_at msk (fill 255 (cells w1 msk)) w1)
                 else (Inl e, w1)))))"

text \<open>Step 5. \<open>None\<close> is the \<^verbatim>\<open>return None\<close> of the handler.\<close>

definition pd_resize ::
  "cv2 \<Rightarrow> pd_args \<Rightarrow> addr \<Rightarrow> addr \<Rightarrow> world \<Rightarrow> (py_error + (addr \<times> addr) option) \<times> world" where
  "pd_resize cv args data_for_plotting msk w =
     (case cv_resize cv (cells w data_for_plotting) (target_display_size args) False of
        Inl e \<Rightarrow> if e = CvError then (Inr None, w) else (Inl e, w)
      | Inr dd \<Rightarrow>
          (case alloc dd w of (display_data, w1) \<Rightarrow>
             (case cv_resize cv (cells w1 msk) (target_display_size args) True of
                Inl e \<Rightarrow> if e = CvError then (Inr None, w1) else (Inl e, w1)
              | Inr dm \<Rightarrow>
                  (case alloc dm w1 of (display_mask_resized, w2) \<Rightarrow>
                     (Inr (Some (display_data, display_mask_resized)), w2)))))"

text \<open>
  Re-masking a colour image: \<^verbatim>\<open>cv2.cvtColor(display_mask_resized, COLOR_GRAY2BGR)\<close> and
  \<^verbatim>\<open>cv2.bitwise_and(img, display_mask_3ch)\<close>, each a new array. \<open>Inl\<close> is \<^verbatim>\<open>cv2.error\<close>.
\<close>

definition remask :: "addr \<Rightarrow> addr \<Rightarrow> world \<Rightarrow> (py_error + addr) \<times> world" where
  "remask img display_mask_resized w =
     (case cvtColor_GRAY2BGR (cells w display_mask_resized) of
        Inl e \<Rightarrow> (Inl e, w)
      | Inr m3 \<Rightarrow>
          (case alloc m3 w of (display_mask_3ch, w1) \<Rightarrow>
             (case bitwise_and (cells w1 img) (cells w1 display_mask_3ch) of
                Inl e \<Rightarrow> (Inl e, w1)
              | Inr r \<Rightarrow> (case alloc r w1 of (a, w2) \<Rightarrow> (Inr a, w2)))))"

text \<open>Step 6. The result is \<^verbatim>\<open>final_image_before_brightness\<close> and \<^verbatim>\<open>is_color\<close>.\<close>

definition pd_colormap ::
  "cv2 \<Rightarrow> pd_args \<Rightarrow> addr \<Rightarrow> addr \<Rightarrow> world \<Rightarrow> (py_error + addr \<times> bool) \<times> world" where
  "pd_colormap cv args display_data display_mask_resized w =
     (if apply_colormap args then
        (case (if invert_colormap args
               then alloc (map (map (map (\<lambda>v. 255 - v))) (cells w display_data)) w
               else (display_data, w)) of
           (data_to_colorize, w1) \<Rightarrow>
             (case cv_applyColorMap cv (cells w1 data_to_colorize) (colormap_type args) of
                Inl e \<Rightarrow> if e = CvError then (Inr (display_data, False), w1) else (Inl e, w1)
              | Inr c \<Rightarrow>
                  (case alloc c w1 of (display_data_color, w2) \<Rightarrow>
                     (case remask display_data_color display_mask_resized w2 of
                        (Inl e, w3) \<Rightarrow>
                          if e = CvError then (Inr (display_data, False), w3) else (Inl e, w3)
                      | (Inr a, w3) \<Rightarrow> (Inr (a, True), w3)))))
      else (Inr (display_data, False), w))"

text \<open>Step 7.\<close>

definition pd_brightness ::
  "cv2 \<Rightarrow> pd_args \<Rightarrow> addr \<Rightarrow> bool \<Rightarrow> addr \<Rightarrow> world \<Rightarrow> (py_error + addr) \<times> world" where
  "pd_brightness cv args final_image_before_brightness is_color display_mask_resized w =
     (if is_color \<and> (brightness_alpha args \<noteq> 1 \<or> brightness_beta args \<noteq> 0) then
        (case cv_convertScaleAbs cv (cells w final_image_before_brightness)
                (brightness_alpha args) (brightness_beta args) of
           Inl e \<Rightarrow>
             if e = CvError then (Inr final_image_before_brightness, w) else (Inl e, w)
         | Inr s \<Rightarrow>
             (case alloc s w of (scaled, w1) \<Rightarrow>
                (case remask scaled display_mask_resized w1 of
                   (Inl e, w2) \<Rightarrow>
                     if e = CvError then (Inr final_image_before_brightness, w2)
                     else (Inl e, w2)
                 | (Inr a, w2) \<Rightarrow> (Inr a, w2))))
      else (Inr final_image_before_brightness, w))"

text \<open>Step 8.\<close>

definition pd_final_blur ::
  "cv2 \<Rightarrow> pd_args \<Rightarrow> addr \<Rightarrow> bool \<Rightarrow> addr \<Rightarrow> world \<Rightarrow> (py_error + addr) \<times> world" where
  "pd_final_blur cv args final_image_after_brightness is_color display_mask_resized w =
     (if is_color then
        (let k_w_final = (if fst (final_blur_kernel_size args) mod 2 \<noteq> 0
                          then fst (final_blur_kernel_size args)
                          else fst (final_blur_kernel_size args) + 1);
             k_h_final = (if snd (final_blur_kernel_size args) mod 2 \<noteq> 0
                          then snd (final_blur_kernel_size args)
                          else snd (final_blur_kernel_size args) + 1)
         in if k_w_final > 0 \<and> k_h_final > 0 then
              (case call_GaussianBlur cv final_image_after_brightness (k_w_final, k_h_final)
                      (final_blur_sigma args) w of
                 (Inl e, w1) \<Rightarrow>
                   if e = CvError then (Inr final_image_after_brightness, w1) else (Inl e, w1)
               | (Inr blurred, w1) \<Rightarrow>
                   (case remask blurred display_mask_resized w1 of
                      (Inl e, w2) \<Rightarrow>
                        if e = CvError then (Inr final_image_after_brightness, w2)
                        else (Inl e, w2)
                    | (Inr a, w2) \<Rightarrow> (Inr a, w2)))
            else (Inr final_image_after_brightness, w))
      else (Inr final_image_after_brightness, w))"

text \<open>
  \<^verbatim>\<open>_create_single_pseudo_depth_map\<close>. \<open>face_roi\<close> is \<open>None\<close> or a reference to the
  caller's array; the result is \<open>None\<close> or a reference to the processed image. Steps 2
  and 4 are outside every \<^verbatim>\<open>try\<close>, so an error of the masking in step 4 leaves the
  function.
\<close>

definition create_single_pseudo_depth_map ::
  "cv2 \<Rightarrow> pd_args \<Rightarrow> addr option \<Rightarrow> world \<Rightarrow> (py_error + addr option) \<times> world" where
  "create_single_pseudo_depth_map cv args face_roi w =
     (case face_roi of
        None \<Rightarrow> (Inr None, w)
      | Some roi \<Rightarrow>
          if concat (concat (cells w roi)) = [] then (Inr None, w)
          else
            (case pd_blur cv args roi w of
               (Inl e, w1) \<Rightarrow> (Inl e, w1)
             | (Inr blurred_roi, w1) \<Rightarrow>
            (case alloc (cv_normalize cv (cells w1 blurred_roi)) w1 of
               (normalized_blurred, w2) \<Rightarrow>
            (case alloc (cells w2 normalized_blurred) w2 of
               (data_copy, w3) \<Rightarrow>
            (case pd_mask cv args data_copy w3 of
               (Inl e, w4) \<Rightarrow> (Inl e, w4)
             | (Inr msk, w4) \<Rightarrow>
            (case bitwise_and_mask (cells w4 data_copy) (cells w4 data_copy) (cells w4 msk) of
               Inl e \<Rightarrow> (Inl e, w4)
             | Inr masked \<Rightarrow>
            (case alloc masked w4 of
               (data_for_plotting, w5) \<Rightarrow>
            (case pd_resize cv args data_for_plotting msk w5 of
               (Inl e, w6) \<Rightarrow> (Inl e, w6)
             | (Inr None, w6) \<Rightarrow> (Inr None, w6)
             | (Inr (Some (display_data, display_mask_resized)), w6) \<Rightarrow>
            (case pd_colormap cv args display_data display_mask_resized w6 of
               (Inl e, w7) \<Rightarrow> (Inl e, w7)
             | (Inr (final_image_before_brightness, is_color), w7) \<Rightarrow>
            (case pd_brightness cv args final_image_before_brightness is_color
                    display_mask_resized w7 of
               (Inl e, w8) \<Rightarrow> (Inl e, w8)
             | (Inr final_image_after_brightness, w8) \<Rightarrow>
            (case pd_final_blur cv args final_image_after_brightness is_color
                    display_mask_resized w8 of
               (Inl e, w9) \<Rightarrow> (Inl e, w9)
             | (Inr final_display_image, w9) \<Rightarrow>
                 (Inr (Some final_display_image), w9))))))))))))"

section \<open>The similarity window (recognition server, step 8.5)\<close>

text \<open>
  \<^verbatim>\<open>win_size = min(7, target_h // 2 * 2 + 1, target_w // 2 * 2 + 1)\<close>
  \<^verbatim>\<open>if win_size < 3 : win_size = 3\<close>
\<close>

definition ssim_win_size :: "int \<Rightarrow> int \<Rightarrow> int" where
  "ssim_win_size target_h target_w =
     (let win_size = min 7 (min (target_h div 2 * 2 + 1) (target_w div 2 * 2 + 1))
      in if win_size < 3 then 3 else win_size)"

section \<open>Face selection (recognition server, step 1)\<close>

text \<open>
  The sort key \<^verbatim>\<open>lambda f: f[2]*f[3]\<close>. The boxes are rows of an int32 numpy array,
  so the product is an int32 product and wraps around.
\<close>

definition area_key :: "face \<Rightarrow> int" where
  "area_key f = (case f of (fx, fy, fw, fh) \<Rightarrow> sint (word_of_int (fw * fh) :: 32 word))"

text \<open>
  \<^verbatim>\<open>faces = sorted(faces, key=lambda f: f[2]*f[3], reverse=True)\<close> and
  \<^verbatim>\<open>fx, fy, fw, fh = faces[0]\<close>, reached only when \<^verbatim>\<open>len(faces) != 0\<close>.
\<close>

definition primary_face :: "face list \<Rightarrow> py_error + face" where
  "primary_face faces =
     (case sorted_reverse area_key faces of [] \<Rightarrow> Inl IndexError | f # _ \<Rightarrow> Inr f)"

section \<open>The recognition server: external capabilities\<close>

text \<open>
  What \<^verbatim>\<open>perform_liveness_check\<close> calls and this development does not fix: the face
  cascade, the depth model, the OpenCV image operations, matplotlib, scipy's
  \<^verbatim>\<open>griddata\<close> and scikit-image's \<^verbatim>\<open>structural_similarity\<close>. A function with a
  result in \<open>py_error + _\<close> returns \<open>Inl\<close> when the call raises; the others are calls
  on arrays the function itself has made well-formed. \<open>ssim\<close> is \<open>None\<close> when the import of
  scikit-image failed at module load. \<open>draw_rectangle\<close> and \<open>draw_circle\<close> give the
  contents of the array after the in-place drawing; the last argument of
  \<open>draw_rectangle\<close> is the thickness.
\<close>

record server_env =
  cascade_empty :: bool
  processor_from_pretrained :: "py_error + unit"
  model_from_pretrained :: "py_error + unit"
  cvtColor_BGR2GRAY :: "image \<Rightarrow> py_error + gray"
  detectMultiScale :: "gray \<Rightarrow> face list"
  draw_rectangle :: "image \<Rightarrow> int \<times> int \<Rightarrow> int \<times> int \<Rightarrow> int \<Rightarrow> image"
  clahe_apply :: "gray \<Rightarrow> gray"
  adaptiveThreshold :: "gray \<Rightarrow> gray"
  erode :: "gray \<Rightarrow> gray"
  dilate :: "gray \<Rightarrow> gray"
  blob_detect :: "gray \<Rightarrow> keypoint list"
  draw_circle :: "image \<Rightarrow> int \<times> int \<Rightarrow> image"
  plot_point_cloud :: "(int \<times> int) list \<Rightarrow> 8 word list \<Rightarrow> py_error + unit"
  griddata :: "(int \<times> int) list \<Rightarrow> real list \<Rightarrow> face \<Rightarrow> py_error + farray"
  normalize_to_u8 :: "farray \<Rightarrow> py_error + image"
  applyColorMap_jet :: "image \<Rightarrow> py_error + image"
  addWeighted :: "image \<Rightarrow> image \<Rightarrow> py_error + image"
  predict_depth :: "image \<Rightarrow> py_error + farray"
  normalize01 :: "farray \<Rightarrow> py_error + farray"
  show_depth_maps :: "farray \<Rightarrow> py_error + unit"
  resize_linear :: "farray \<Rightarrow> int \<times> int \<Rightarrow> py_error + farray"
  ssim :: "(farray \<Rightarrow> farray \<Rightarrow> int \<Rightarrow> py_error + pyfloat) option"
  mean_squared_error :: "farray \<Rightarrow> farray \<Rightarrow> py_error + pyfloat"

section \<open>Dot filtering (recognition server, step 6)\<close>

text \<open>
  The loop over the keypoints. It keeps the keypoints whose truncated centre lies
  strictly inside the face box (\<^verbatim>\<open>fx < x < fx + fw and fy < y < fy + fh\<close>); for each one it reads \<^verbatim>\<open>gray[y_clamped, x_clamped]\<close>
  from the array the name \<^verbatim>\<open>gray\<close> is bound to when the loop runs, and draws a dot into
  \<^verbatim>\<open>img_display\<close>. The result is \<^verbatim>\<open>face_dot_coords\<close> zipped with
  \<^verbatim>\<open>face_dot_intensities\<close>.
\<close>

fun filter_face_dots ::
  "server_env \<Rightarrow> gray \<Rightarrow> face \<Rightarrow> addr \<Rightarrow> keypoint list \<Rightarrow> world
     \<Rightarrow> (py_error + ((int \<times> int) \<times> 8 word) list) \<times> world" where
  "filter_face_dots env g f img_display [] w = (Inr [], w)"
| "filter_face_dots env g f img_display (kp # kps) w =
     (case f of (fx, fy, fw, fh) \<Rightarrow>
        (let x = py_int (fst kp); y = py_int (snd kp) in
         if fx < x \<and> x < int32_add fx fw \<and> fy < y \<and> y < int32_add fy fh then
           (let y_clamped = max 0 (min y (fst (shape2 g) - 1));
                x_clamped = max 0 (min x (snd (shape2 g) - 1))
            in (case index2 g y_clamped x_clamped of
                  Inl e \<Rightarrow> (Inl e, w)
                | Inr intensity \<Rightarrow>
                    (case filter_face_dots env g f img_display kps
                            (store_at img_display
                               (draw_circle env (cells w img_display) (x, y)) w) of
                       (Inl e, w') \<Rightarrow> (Inl e, w')
                     | (Inr rest, w') \<Rightarrow> (Inr (((x, y), intensity) # rest), w'))))
         else filter_face_dots env g f img_display kps w))"

section \<open>Heatmap gap filling (recognition server, step 7)\<close>

text \<open>\<^verbatim>\<open>np.nanmedian\<close>: the median of the cells that are not NaN; NaN when there is none.\<close>

definition finite_cells :: "farray \<Rightarrow> real list" where
  "finite_cells a = concat (map (\<lambda>c. case c of Fl v \<Rightarrow> [v] | NaN \<Rightarrow> []) (concat a))"

definition nanmedian :: "farray \<Rightarrow> pyfloat" where
  "nanmedian a =
     (let vs = sort (finite_cells a); n = length vs
      in if n = 0 then NaN
         else if odd n then Fl (vs ! (n div 2))
         else Fl ((vs ! (n div 2 - 1) + vs ! (n div 2)) / 2))"

text \<open>\<^verbatim>\<open>np.nan_to_num(a, nan=m)\<close> returns a copy with every NaN replaced by \<open>m\<close>.\<close>

definition nan_to_num :: "pyfloat \<Rightarrow> farray \<Rightarrow> farray" where
  "nan_to_num m a = map (map (\<lambda>c. case c of NaN \<Rightarrow> m | Fl v \<Rightarrow> Fl v)) a"

text \<open>
  \<^verbatim>\<open>if np.isnan(heatmap_norm).any():\<close>
  \<^verbatim>\<open>    median_val = np.nanmedian(heatmap_norm)\<close>
  \<^verbatim>\<open>    if np.isnan(median_val): median_val = 0\<close>
  \<^verbatim>\<open>    heatmap_norm = np.nan_to_num(heatmap_norm, nan=median_val)\<close>
\<close>

definition fill_nan :: "farray \<Rightarrow> farray" where
  "fill_nan heatmap_norm =
     (if list_ex (\<lambda>c. c = NaN) (concat heatmap_norm) then
        (let median_val = nanmedian heatmap_norm;
             median_val = (if median_val = NaN then Fl 0 else median_val)
         in nan_to_num median_val heatmap_norm)
      else heatmap_norm)"

section \<open>Heatmap construction (recognition server, step 7)\<close>

text \<open>
  \<^verbatim>\<open>overlay[fy:fy+fh, fx:fx+fw] = roi_overlay\<close>: the block replaces the region, in place.
\<close>

definition assign_slice :: "int \<Rightarrow> int \<Rightarrow> 'a list \<Rightarrow> 'a list \<Rightarrow> 'a list" where
  "assign_slice lo hi ys xs =
     (let a = slice_bound lo (length xs); b = slice_bound hi (length xs)
      in take a xs @ ys @ drop (max a b) xs)"

definition paste :: "int \<Rightarrow> int \<Rightarrow> int \<Rightarrow> int \<Rightarrow> image \<Rightarrow> image \<Rightarrow> image" where
  "paste y0 y1 x0 x1 block img =
     assign_slice y0 y1 (map2 (assign_slice x0 x1) block (py_slice y0 y1 img)) img"

text \<open>
  The visualisation inside the \<^verbatim>\<open>try\<close> of step 7. The mask is a new array with a
  filled rectangle drawn into it; \<^verbatim>\<open>roi_overlay\<close> is a view of \<^verbatim>\<open>overlay\<close>, so
  \<^verbatim>\<open>cv2.addWeighted(..., roi_overlay)\<close> and the assignment write into \<^verbatim>\<open>overlay\<close>.
\<close>

definition heatmap_visualisation ::
  "server_env \<Rightarrow> addr \<Rightarrow> face \<Rightarrow> farray \<Rightarrow> addr \<Rightarrow> world \<Rightarrow> (py_error + unit) \<times> world" where
  "heatmap_visualisation env ir_dot_image_bgr f heatmap_norm overlay w =
     (case f of (fx, fy, fw, fh) \<Rightarrow>
     (case normalize_to_u8 env heatmap_norm of
        Inl e \<Rightarrow> (Inl e, w)
      | Inr heatmap_vis \<Rightarrow>
     (case applyColorMap_jet env heatmap_vis of
        Inl e \<Rightarrow> (Inl e, w)
      | Inr heatmap_color \<Rightarrow>
     (case alloc (zeros (fst (shape2 (cells w ir_dot_image_bgr)))
                        (snd (shape2 (cells w ir_dot_image_bgr)))) w of
        (msk, w1) \<Rightarrow>
     (let w2 = store_at msk
                 (draw_rectangle env (cells w1 msk) (fx, fy)
                    (int32_add fx fw, int32_add fy fh) (- 1)) w1;
          mask_roi = crop fy (int32_add fy fh) fx (int32_add fx fw) (cells w2 msk)
      in if shape2 heatmap_color = shape2 mask_roi then
           (case bitwise_and_mask heatmap_color heatmap_color mask_roi of
              Inl e \<Rightarrow> (Inl e, w2)
            | Inr heatmap_color_masked \<Rightarrow>
                (let roi_overlay =
                       crop fy (int32_add fy fh) fx (int32_add fx fw) (cells w2 overlay) in
                 if shape3 heatmap_color_masked = shape3 roi_overlay then
                   (case addWeighted env heatmap_color_masked roi_overlay of
                      Inl e \<Rightarrow> (Inl e, w2)
                    | Inr blended \<Rightarrow>
                        (Inr (),
                         store_at overlay
                           (paste fy (int32_add fy fh) fx (int32_add fx fw) blended
                              (cells w2 overlay)) w2))
                 else (Inr (), w2)))
         else (Inr (), w2))))))"

text \<open>
  Step 7 from \<^verbatim>\<open>heatmap_norm = None\<close> on. The heatmap is built only for more than five
  dots. The handler of the \<^verbatim>\<open>try\<close> is \<^verbatim>\<open>except Exception\<close>: an exception it catches
  leaves \<^verbatim>\<open>heatmap_norm = None\<close>, any other leaves the function (\<open>Inl\<close>).
\<close>

definition heatmap_stage ::
  "server_env \<Rightarrow> addr \<Rightarrow> face \<Rightarrow> ((int \<times> int) \<times> 8 word) list \<Rightarrow> addr \<Rightarrow> world
     \<Rightarrow> (py_error + farray option) \<times> world" where
  "heatmap_stage env ir_dot_image_bgr f dots overlay w =
     (if length dots > 5 then
        (let points_xy = map fst dots;
             normalized_z_intensity = map (\<lambda>(_, v). real (unat v) / 255) dots
         in (case griddata env points_xy normalized_z_intensity f of
               Inl e \<Rightarrow> if is_Exception e then (Inr None, w) else (Inl e, w)
             | Inr g \<Rightarrow>
                 (let heatmap_norm = fill_nan (transpose g) in
                  (case heatmap_visualisation env ir_dot_image_bgr f heatmap_norm overlay w of
                     (Inl e, w') \<Rightarrow> if is_Exception e then (Inr None, w') else (Inl e, w')
                   | (Inr _, w') \<Rightarrow> (Inr (Some heatmap_norm), w')))))
      else (Inr None, w))"

section \<open>Depth comparison and decision (recognition server, step 8)\<close>

text \<open>Comparisons of a float with a constant; a comparison with NaN is false.\<close>

definition float_gt :: "pyfloat \<Rightarrow> real \<Rightarrow> bool" where
  "float_gt x t = (case x of Fl v \<Rightarrow> v > t | NaN \<Rightarrow> False)"

definition float_lt :: "pyfloat \<Rightarrow> real \<Rightarrow> bool" where
  "float_lt x t = (case x of Fl v \<Rightarrow> v < t | NaN \<Rightarrow> False)"

text \<open>
  The body of the \<^verbatim>\<open>try\<close> of step 8: \<open>Inl\<close> when an exception leaves the body, otherwise
  \<^verbatim>\<open>is_live\<close> and \<^verbatim>\<open>similarity_score\<close> as the body leaves them. The clamp mixes the
  extents of \<^verbatim>\<open>gray\<close>, which are Python integers, with the entries of the box; its
  differences and sums are taken exactly.
  \<^verbatim>\<open>SIMILARITY_THRESHOLD = 0.3\<close>, \<^verbatim>\<open>MSE_THRESHOLD = 0.05\<close>.
\<close>

definition depth_comparison ::
  "server_env \<Rightarrow> image \<Rightarrow> gray \<Rightarrow> face \<Rightarrow> farray \<Rightarrow> py_error + bool \<times> pyfloat" where
  "depth_comparison env frame g f hm =
     (case f of (fx, fy, fw, fh) \<Rightarrow>
     (case predict_depth env frame of
        Inl e \<Rightarrow> Inl e
      | Inr depth_map_model_full \<Rightarrow>
     (let fh_img = fst (shape2 g); fw_img = snd (shape2 g);
          fx_c = max 0 fx; fy_c = max 0 fy;
          fw_c = min fw (fw_img - fx); fh_c = min fh (fh_img - fy)
      in if fw_c \<le> 0 \<or> fh_c \<le> 0 then Inl ValueError
         else
     (let depth_map_model_roi =
            crop fy_c (fy_c + fh_c) fx_c (fx_c + fw_c) depth_map_model_full
      in (case normalize01 env depth_map_model_roi of
            Inl e \<Rightarrow> Inl e
          | Inr depth_map_model_norm \<Rightarrow>
         (case show_depth_maps env depth_map_model_roi of
            Inl e \<Rightarrow> Inl e
          | Inr _ \<Rightarrow>
         (let target_h = fst (shape2 hm); target_w = snd (shape2 hm) in
          (case (if shape2 depth_map_model_norm \<noteq> (target_h, target_w)
                 then resize_linear env depth_map_model_norm (target_w, target_h)
                 else Inr depth_map_model_norm) of
             Inl e \<Rightarrow> Inl e
           | Inr depth_map_model_norm_resized \<Rightarrow>
               (case ssim env of
                  Some structural_similarity \<Rightarrow>
                    (let win_size = ssim_win_size target_h target_w in
                     (case structural_similarity hm depth_map_model_norm_resized win_size of
                        Inl e \<Rightarrow> Inl e
                      | Inr score \<Rightarrow> Inr (float_gt score (3 / 10), score)))
                | None \<Rightarrow>
                    (case mean_squared_error env hm depth_map_model_norm_resized of
                       Inl e \<Rightarrow> Inl e
                     | Inr score \<Rightarrow> Inr (float_lt score (5 / 100), score)))))))))))"

text \<open>
  Step 8 as a whole: \<^verbatim>\<open>similarity_score = -1.0\<close>, then the comparison when there is a
  heatmap and the depth model is loaded. The handler is \<^verbatim>\<open>except Exception\<close>: an
  exception it catches gives \<^verbatim>\<open>is_live = False\<close> and \<^verbatim>\<open>similarity_score = -1.0\<close>, any
  other leaves the function (\<open>Inl\<close>). \<open>Inr\<close> holds \<^verbatim>\<open>is_live\<close> and
  \<^verbatim>\<open>similarity_score\<close> at the \<^verbatim>\<open>return\<close>.
\<close>

definition liveness_decision ::
  "server_env \<Rightarrow> image \<Rightarrow> gray \<Rightarrow> face \<Rightarrow> farray option \<Rightarrow> bool
     \<Rightarrow> py_error + bool \<times> pyfloat" where
  "liveness_decision env frame g f hm depth_loaded =
     (case hm of
        None \<Rightarrow> Inr (False, Fl (- 1))
      | Some h \<Rightarrow>
          if depth_loaded then
            (case depth_comparison env frame g f h of
               Inl e \<Rightarrow> if is_Exception e then Inr (False, Fl (- 1)) else Inl e
             | Inr r \<Rightarrow> Inr r)
          else Inr (False, Fl (- 1)))"

section \<open>The liveness check\<close>

text \<open>
  The local names of \<^verbatim>\<open>perform_liveness_check\<close> at its \<^verbatim>\<open>return is_live\<close>. The function
  returns \<open>is_live\<close>. \<open>similarity_score\<close> is \<open>None\<close> when the name is not bound yet (the
  early return without a face); \<open>heatmap_norm\<close> is \<open>None\<close> when the name is unbound or
  bound to \<^verbatim>\<open>None\<close>.
\<close>

record verdict =
  is_live :: bool
  similarity_score :: "pyfloat option"
  heatmap_norm :: "farray option"

text \<open>
  Loading the depth model, in \<^verbatim>\<open>try\<close> with the handler \<^verbatim>\<open>except Exception\<close>, which
  sets \<^verbatim>\<open>depth_model = None\<close>. The result tells whether \<^verbatim>\<open>depth_processor\<close> and
  whether \<^verbatim>\<open>depth_model\<close> is bound to an object afterwards.
\<close>

definition load_depth_model :: "server_env \<Rightarrow> py_error + bool \<times> bool" where
  "load_depth_model env =
     (case processor_from_pretrained env of
        Inl e \<Rightarrow> if is_Exception e then Inr (False, False) else Inl e
      | Inr _ \<Rightarrow>
          (case model_from_pretrained env of
             Inl e \<Rightarrow> if is_Exception e then Inr (True, False) else Inl e
           | Inr _ \<Rightarrow> Inr (True, True)))"

text \<open>
  \<^verbatim>\<open>perform_liveness_check(ir_dot_image_bgr)\<close>, steps 1 to 6. The argument is a
  reference to the caller's frame. \<open>Inl\<close> is an exception that leaves the function;
  \<open>None\<close> is the early \<^verbatim>\<open>return is_live\<close> when no face is detected. Otherwise the
  result is the array \<^verbatim>\<open>gray\<close> as step 6 reads it, the face box, the retained dots,
  the reference \<^verbatim>\<open>img_display\<close>, and whether
  \<^verbatim>\<open>depth_model is not None and depth_processor is not None\<close>.
\<close>

definition dot_extraction ::
  "server_env \<Rightarrow> addr \<Rightarrow> world
     \<Rightarrow> (py_error + (gray \<times> face \<times> ((int \<times> int) \<times> 8 word) list \<times> addr \<times> bool) option)
        \<times> world" where
  "dot_extraction env ir_dot_image_bgr w =
     (case alloc (cells w ir_dot_image_bgr) w of (img_display, w1) \<Rightarrow>
     (case cvtColor_BGR2GRAY env (cells w1 ir_dot_image_bgr) of
        Inl e \<Rightarrow> (Inl e, w1)
      | Inr gray0 \<Rightarrow>
      if cascade_empty env then (Inl SystemExit, w1)
      else
     (case load_depth_model env of
        Inl e \<Rightarrow> (Inl e, w1)
      | Inr (depth_processor, depth_model) \<Rightarrow>
     (let faces = detectMultiScale env gray0
      in if length faces = 0 then (Inr None, w1)
         else
     (case primary_face faces of
        Inl e \<Rightarrow> (Inl e, w1)
      | Inr f \<Rightarrow>
     (case f of (fx, fy, fw, fh) \<Rightarrow>
     (let w2 = store_at img_display
                 (draw_rectangle env (cells w1 img_display) (fx, fy)
                    (int32_add fx fw, int32_add fy fh) 2) w1;
          g = bitwise_not gray0;
          gray_enhanced = clahe_apply env g;
          thresh = adaptiveThreshold env gray_enhanced;
          opened = dilate env (erode env thresh);
          all_keypoints = blob_detect env opened
      in (case filter_face_dots env g f img_display all_keypoints w2 of
            (Inl e, w3) \<Rightarrow> (Inl e, w3)
          | (Inr dots, w3) \<Rightarrow>
              (Inr (Some (g, f, dots, img_display, depth_model \<and> depth_processor)),
               w3)))))))))"

text \<open>
  Steps 1 to 7: the 3-D plot, made for more than five dots and outside every
  \<^verbatim>\<open>try\<close>, the copy \<^verbatim>\<open>overlay = img_display.copy()\<close>, and the heatmap.
\<close>

definition before_comparison ::
  "server_env \<Rightarrow> addr \<Rightarrow> world
     \<Rightarrow> (py_error + (gray \<times> face \<times> farray option \<times> bool) option) \<times> world" where
  "before_comparison env ir_dot_image_bgr w =
     (case dot_extraction env ir_dot_image_bgr w of
        (Inl e, w3) \<Rightarrow> (Inl e, w3)
      | (Inr None, w3) \<Rightarrow> (Inr None, w3)
      | (Inr (Some (g, f, dots, img_display, depth_loaded)), w3) \<Rightarrow>
         (case (if length dots > 5 then plot_point_cloud env (map fst dots) (map snd dots)
                else Inr ()) of
            Inl e \<Rightarrow> (Inl e, w3)
          | Inr _ \<Rightarrow>
         (case alloc (cells w3 img_display) w3 of (overlay, w4) \<Rightarrow>
         (case heatmap_stage env ir_dot_image_bgr f dots overlay w4 of
            (Inl e, w5) \<Rightarrow> (Inl e, w5)
          | (Inr hm, w5) \<Rightarrow> (Inr (Some (g, f, hm, depth_loaded)), w5)))))"

text \<open>The whole function: steps 1 to 7, then step 8 and \<^verbatim>\<open>return is_live\<close>.\<close>

definition perform_liveness_check ::
  "server_env \<Rightarrow> addr \<Rightarrow> world \<Rightarrow> (py_error + verdict) \<times> world" where
  "perform_liveness_check env ir_dot_image_bgr w =
     (case before_comparison env ir_dot_image_bgr w of
        (Inl e, w5) \<Rightarrow> (Inl e, w5)
      | (Inr None, w5) \<Rightarrow>
          (Inr \<lparr>is_live = False, similarity_score = None, heatmap_norm = None\<rparr>, w5)
      | (Inr (Some (g, f, hm, depth_loaded)), w5) \<Rightarrow>
          (case liveness_decision env (cells w5 ir_dot_image_bgr) g f hm depth_loaded of
             Inl e \<Rightarrow> (Inl e, w5)
           | Inr (live, score) \<Rightarrow>
               (Inr \<lparr>is_live = live, similarity_score = Some score, heatmap_norm = hm\<rparr>,
                w5)))"

section \<open>Example inputs\<close>

text \<open>
  A 4 by 4 frame whose pixels all have the value 200 in every channel, alone in the
  store, and an environment for it: the detector finds one box that covers the frame,
  the blob detector returns the given keypoints, conversion to grayscale takes the
  first channel, the image operations return their input, \<^verbatim>\<open>griddata\<close> returns the
  sample values in one row and an undefined second row, and the depth comparison
  scores 0.9.
\<close>

definition example_frame :: image where
  "example_frame =
     [[[200, 200, 200], [200, 200, 200], [200, 200, 200], [200, 200, 200]],
      [[200, 200, 200], [200, 200, 200], [200, 200, 200], [200, 200, 200]],
      [[200, 200, 200], [200, 200, 200], [200, 200, 200], [200, 200, 200]],
      [[200, 200, 200], [200, 200, 200], [200, 200, 200], [200, 200, 200]]]"

definition example_world :: world where
  "example_world = \<lparr>cells = (\<lambda>_. [])(0 := example_frame), fresh = 1, blur_calls = []\<rparr>"

definition example_env :: "face list \<Rightarrow> keypoint list \<Rightarrow> server_env" where
  "example_env faces kps =
     \<lparr>cascade_empty = False,
      processor_from_pretrained = Inr (),
      model_from_pretrained = Inr (),
      cvtColor_BGR2GRAY = (\<lambda>img. Inr (map (map hd) img)),
      detectMultiScale = (\<lambda>_. faces),
      draw_rectangle = (\<lambda>img _ _ _. img),
      clahe_apply = (\<lambda>g. g),
      adaptiveThreshold = (\<lambda>g. g),
      erode = (\<lambda>g. g),
      dilate = (\<lambda>g. g),
      blob_detect = (\<lambda>_. kps),
      draw_circle = (\<lambda>img _. img),
      plot_point_cloud = (\<lambda>_ _. Inr ()),
      griddata = (\<lambda>_ vals _. Inr [map Fl vals, map (\<lambda>_. NaN) vals]),
      normalize_to_u8 = (\<lambda>a. Inr (map (map (\<lambda>_. [0])) a)),
      applyColorMap_jet = (\<lambda>img. Inr (map (map (\<lambda>p. p @ p @ p)) img)),
      addWeighted = (\<lambda>a _. Inr a),
      predict_depth = (\<lambda>frame. Inr (map (map (\<lambda>_. Fl (1 / 2))) frame)),
      normalize01 = (\<lambda>a. Inr a),
      show_depth_maps = (\<lambda>_. Inr ()),
      resize_linear =
        (\<lambda>_ sz. Inr (replicate (nat (snd sz)) (replicate (nat (fst sz)) (Fl (1 / 2))))),
      ssim = Some (\<lambda>_ _ _. Inr (Fl (9 / 10))),
      mean_squared_error = (\<lambda>_ _. Inr (Fl 0))\<rparr>"

definition six_dots :: "keypoint list" where
  "six_dots = [(3 / 2, 3 / 2), (5 / 2, 3 / 2), (3 / 2, 5 / 2), (5 / 2, 5 / 2), (1, 2), (2, 1)]"


definition example_env_ssim :: "py_error + pyfloat \<Rightarrow> server_env" where
  "example_env_ssim r = (example_env [(0, 0, 4, 4)] six_dots)\<lparr>ssim := Some (\<lambda>_ _ _. r)\<rparr>"



text \<open>
  For that frame and six dots: the grayscale image of line 648, the array \<^verbatim>\<open>gray\<close> when
  step 6 runs, and the heatmap after gap filling.
\<close>

definition example_gray0 :: gray where
  "example_gray0 =
     [[200, 200, 200, 200], [200, 200, 200, 200], [200, 200, 200, 200], [200, 200, 200, 200]]"

definition example_gray :: gray where
  "example_gray = [[55, 55, 55, 55], [55, 55, 55, 55], [55, 55, 55, 55], [55, 55, 55, 55]]"

definition example_heatmap :: farray where
  "example_heatmap =
     [[Fl (11 / 51), Fl (11 / 51)], [Fl (11 / 51), Fl (11 / 51)], [Fl (11 / 51), Fl (11 / 51)],
      [Fl (11 / 51), Fl (11 / 51)], [Fl (11 / 51), Fl (11 / 51)], [Fl (11 / 51), Fl (11 / 51)]]"

text \<open>
  A face crop of 2 by 2 pixels, alone in the store, and OpenCV functions for it: blur,
  normalisation, resizing and the brightness transform return their input, the
  ellipse covers every pixel but the top right one, and the colour map repeats the
  channel. The keyword arguments are the defaults of
  \<^verbatim>\<open>_create_single_pseudo_depth_map\<close> with the kernel sizes (40, 41) and (45, 46).
\<close>

definition example_roi :: image where
  "example_roi = [[[10], [20]], [[30], [40]]]"

definition example_roi_world :: world where
  "example_roi_world = \<lparr>cells = (\<lambda>_. [])(0 := example_roi), fresh = 1, blur_calls = []\<rparr>"

definition example_cv :: cv2 where
  "example_cv =
     \<lparr>cv_GaussianBlur = (\<lambda>img _ _. Inr img),
      cv_normalize = (\<lambda>img. img),
      cv_ellipse = (\<lambda>_ _ _. Inr (\<lambda>y x. \<not> (y = 0 \<and> x = 1))),
      cv_resize = (\<lambda>img _ _. Inr img),
      cv_applyColorMap = (\<lambda>img _. Inr (map (map (\<lambda>p. p @ p @ p)) img)),
      cv_convertScaleAbs = (\<lambda>img _ _. Inr img),
      half_scaled = (\<lambda>n s. py_int (real_of_int n / 2 * s))\<rparr>"

definition example_args :: pd_args where
  "example_args =
     \<lparr>target_display_size = (600, 600),
      blur_kernel_size = (40, 41),
      blur_sigma = 25,
      ellipse_scale_x = 85 / 100,
      ellipse_scale_y = 95 / 100,
      apply_colormap = True,
      invert_colormap = True,
      colormap_type = 2,
      brightness_alpha = 1,
      brightness_beta = 15,
      final_blur_kernel_size = (45, 46),
      final_blur_sigma = 0\<rparr>"

section \<open>Auxiliary notions for the properties\<close>

text \<open>
  Every array that exists in \<open>w\<close> has the same contents in \<open>w'\<close>: the run from \<open>w\<close> to
  \<open>w'\<close> wrote only into arrays it created itself.
\<close>

definition unchanged_below :: "world \<Rightarrow> world \<Rightarrow> bool" where
  "unchanged_below w w' \<longleftrightarrow> fresh w \<le> fresh w' \<and> (\<forall>b<fresh w. cells w' b = cells w b)"

text \<open>
  The pixel function of \<open>bitwise_and_mask\<close> when both sources are the same array.
\<close>

definition masked_pixel :: "8 word list \<Rightarrow> 8 word list \<Rightarrow> 8 word list" where
  "masked_pixel p m = (if m \<noteq> [0] then map2 (\<lambda>a b. a AND b) p p else map (\<lambda>_. 0) p)"

section \<open>Properties of the store\<close>

lemma unchanged_below_refl: "unchanged_below w w"
  by (simp add: unchanged_below_def)

lemma unchanged_below_trans:
  "unchanged_below w1 w2 \<Longrightarrow> unchanged_below w2 w3 \<Longrightarrow> unchanged_below w1 w3"
  by (auto simp: unchanged_below_def)

lemma store_at_simps [simp]:
  "fresh (store_at a img w) = fresh w"
  "blur_calls (store_at a img w) = blur_calls w"
  "cells (store_at a img w) = (cells w)(a := img)"
  by (simp_all add: store_at_def)

lemma alloc_frame:
  assumes "alloc img w = (a, w')"
  shows "a = fresh w" "fresh w' = Suc (fresh w)" "cells w' = (cells w)(a := img)"
        "blur_calls w' = blur_calls w" "unchanged_below w w'"
  using assms by (auto simp: alloc_def unchanged_below_def)

section \<open>The pseudo-depth generator: what a run does to the store\<close>

text \<open>
  Each step leaves the arrays that existed before it unchanged, returns either an
  array it was given or one it created, and calls \<^verbatim>\<open>cv2.GaussianBlur\<close> at most once.
\<close>

lemma call_GaussianBlur_frame:
  assumes "call_GaussianBlur cv src k s w = (r, w')"
  shows "unchanged_below w w'" "blur_calls w' = blur_calls w @ [k]"
        "\<And>a. r = Inr a \<Longrightarrow> fresh w \<le> a \<and> a < fresh w'"
  using assms unfolding call_GaussianBlur_def
  by (auto simp: alloc_def Let_def unchanged_below_def split: sum.splits)


lemma odd_kernel: "(if k mod 2 \<noteq> 0 then k else k + 1) = (if even k then k + 1 else (k::int))"
  by presburger

lemma pd_blur_frame:
  assumes "pd_blur cv args roi w = (r, w')"
  shows "unchanged_below w w'"
    "blur_calls w' = blur_calls w @
       [(if even (fst (blur_kernel_size args)) then fst (blur_kernel_size args) + 1 else fst (blur_kernel_size args),
         if even (snd (blur_kernel_size args)) then snd (blur_kernel_size args) + 1 else snd (blur_kernel_size args))]"
    "\<And>a. r = Inr a \<Longrightarrow> a = roi \<or> (fresh w \<le> a \<and> a < fresh w')"
proof -
  let ?k = "(if even (fst (blur_kernel_size args)) then fst (blur_kernel_size args) + 1 else fst (blur_kernel_size args),
         if even (snd (blur_kernel_size args)) then snd (blur_kernel_size args) + 1 else snd (blur_kernel_size args))"
  obtain r0 w1 where c: "call_GaussianBlur cv roi ?k (blur_sigma args) w = (r0, w1)"
    by (cases "call_GaussianBlur cv roi ?k (blur_sigma args) w")
  have w': "w' = w1" and r: "r = (case r0 of Inl e \<Rightarrow> if e = CvError then Inr roi else Inl e | Inr b \<Rightarrow> Inr b)"
    using assms c unfolding pd_blur_def Let_def odd_kernel
    by (auto split: sum.splits if_splits)
  note f = call_GaussianBlur_frame[OF c]
  show "unchanged_below w w'" using f(1) w' by simp
  show "blur_calls w' = blur_calls w @ [?k]" using f(2) w' by simp
  show "a = roi \<or> (fresh w \<le> a \<and> a < fresh w')" if "r = Inr a" for a
    using that r f(3) w' by (auto split: sum.splits if_splits)
qed


lemma pd_mask_frame:
  assumes "pd_mask cv args d w = (r, w')"
  shows "unchanged_below w w'" "blur_calls w' = blur_calls w"
        "\<And>a. r = Inr a \<Longrightarrow> fresh w \<le> a \<and> a < fresh w'"
  using assms unfolding pd_mask_def
  by (auto simp: alloc_def Let_def unchanged_below_def split: sum.splits prod.splits if_splits)

lemma pd_resize_frame:
  assumes "pd_resize cv args d m w = (r, w')"
  shows "unchanged_below w w'" "blur_calls w' = blur_calls w"
        "\<And>a b. r = Inr (Some (a, b)) \<Longrightarrow> fresh w \<le> a \<and> a < fresh w' \<and> fresh w \<le> b \<and> b < fresh w'"
  using assms unfolding pd_resize_def
  by (auto simp: alloc_def Let_def unchanged_below_def split: sum.splits prod.splits if_splits)

lemma remask_frame:
  assumes "remask img m w = (r, w')"
  shows "unchanged_below w w'" "blur_calls w' = blur_calls w"
        "\<And>a. r = Inr a \<Longrightarrow> fresh w \<le> a \<and> a < fresh w'"
  using assms unfolding remask_def
  by (auto simp: alloc_def Let_def unchanged_below_def split: sum.splits prod.splits if_splits)


lemma remask_frame':
  assumes "remask img m w = (r, w')"
  shows "fresh w \<le> fresh w' \<and> (\<forall>b<fresh w. cells w' b = cells w b) \<and> blur_calls w' = blur_calls w
         \<and> (\<forall>a. r = Inr a \<longrightarrow> fresh w \<le> a \<and> a < fresh w')"
  using remask_frame[OF assms] by (simp add: unchanged_below_def)

lemma pd_colormap_frame:
  assumes "pd_colormap cv args d m w = (r, w')"
  shows "unchanged_below w w'" "blur_calls w' = blur_calls w"
        "\<And>a c. r = Inr (a, c) \<Longrightarrow> a = d \<or> (fresh w \<le> a \<and> a < fresh w')"
  using assms unfolding pd_colormap_def
  by (auto simp: alloc_def Let_def unchanged_below_def split: sum.splits prod.splits if_splits
           dest!: remask_frame')

lemma pd_brightness_frame:
  assumes "pd_brightness cv args d c m w = (r, w')"
  shows "unchanged_below w w'" "blur_calls w' = blur_calls w"
        "\<And>a. r = Inr a \<Longrightarrow> a = d \<or> (fresh w \<le> a \<and> a < fresh w')"
  using assms unfolding pd_brightness_def
  by (auto simp: alloc_def Let_def unchanged_below_def split: sum.splits prod.splits if_splits
           dest!: remask_frame')


lemma pd_final_blur_frame:
  assumes "pd_final_blur cv args d c m w = (r, w')"
  shows "unchanged_below w w'"
    "blur_calls w' = blur_calls w \<or> blur_calls w' = blur_calls w @
       [(if even (fst (final_blur_kernel_size args)) then fst (final_blur_kernel_size args) + 1 else fst (final_blur_kernel_size args),
         if even (snd (final_blur_kernel_size args)) then snd (final_blur_kernel_size args) + 1 else snd (final_blur_kernel_size args))]"
    "\<And>a. r = Inr a \<Longrightarrow> a = d \<or> (fresh w \<le> a \<and> a < fresh w')"
proof -
  let ?k = "(if even (fst (final_blur_kernel_size args)) then fst (final_blur_kernel_size args) + 1 else fst (final_blur_kernel_size args),
         if even (snd (final_blur_kernel_size args)) then snd (final_blur_kernel_size args) + 1 else snd (final_blur_kernel_size args))"
  have goal: "unchanged_below w w' \<and> (blur_calls w' = blur_calls w \<or> blur_calls w' = blur_calls w @ [?k])
        \<and> (\<forall>a. r = Inr a \<longrightarrow> a = d \<or> (fresh w \<le> a \<and> a < fresh w'))"
  proof (cases "c \<and> 0 < fst ?k \<and> 0 < snd ?k")
    case False
    then have "r = Inr d \<and> w' = w" using assms unfolding pd_final_blur_def Let_def odd_kernel
      by (auto split: if_splits)
    then show ?thesis by (simp add: unchanged_below_refl)
  next
    case True
    obtain r0 w1 where g: "call_GaussianBlur cv d ?k (final_blur_sigma args) w = (r0, w1)"
      by (cases "call_GaussianBlur cv d ?k (final_blur_sigma args) w")
    note f = call_GaussianBlur_frame[OF g]
    show ?thesis
    proof (cases r0)
      case (Inl e)
      then have "w' = w1 \<and> (r = Inr d \<or> r = Inl e)"
        using assms True g unfolding pd_final_blur_def Let_def odd_kernel
        by (auto split: if_splits)
      then show ?thesis using f by auto
    next
      case (Inr blurred)
      obtain r1 w2 where m: "remask blurred m w1 = (r1, w2)" by (cases "remask blurred m w1")
      note fm = remask_frame[OF m]
      have "w' = w2 \<and> (r = Inr d \<or> (\<exists>e. r = Inl e) \<or> r = r1)"
        using assms True g Inr m unfolding pd_final_blur_def Let_def odd_kernel
        by (auto split: if_splits sum.splits)
      moreover have "unchanged_below w w2" using f(1) fm(1) by (rule unchanged_below_trans)
      moreover have "blur_calls w2 = blur_calls w @ [?k]" using f(2) fm(2) by simp
      moreover have "fresh w \<le> a \<and> a < fresh w2" if "r1 = Inr a" for a
        using fm(3)[OF that] f(1) by (auto simp: unchanged_below_def)
      ultimately show ?thesis by auto
    qed
  qed
  show "unchanged_below w w'" using goal by blast
  show "blur_calls w' = blur_calls w \<or> blur_calls w' = blur_calls w @ [?k]" using goal by blast
  show "a = d \<or> (fresh w \<le> a \<and> a < fresh w')" if "r = Inr a" for a using goal that by blast
qed




lemma create_single_pseudo_depth_map_effect:
  assumes run: "create_single_pseudo_depth_map cv args roi w = (r, w')"
  defines "k1 \<equiv> (if even (fst (blur_kernel_size args)) then fst (blur_kernel_size args) + 1
                   else fst (blur_kernel_size args),
                 if even (snd (blur_kernel_size args)) then snd (blur_kernel_size args) + 1
                   else snd (blur_kernel_size args))"
      and "k2 \<equiv> (if even (fst (final_blur_kernel_size args)) then fst (final_blur_kernel_size args) + 1
                   else fst (final_blur_kernel_size args),
                 if even (snd (final_blur_kernel_size args)) then snd (final_blur_kernel_size args) + 1
                   else snd (final_blur_kernel_size args))"
  shows "unchanged_below w w'
       \<and> (blur_calls w' = blur_calls w \<or> blur_calls w' = blur_calls w @ [k1]
           \<or> blur_calls w' = blur_calls w @ [k1, k2])
       \<and> ((\<exists>a. roi = Some a \<and> concat (concat (cells w a)) \<noteq> []) \<longrightarrow> blur_calls w' \<noteq> blur_calls w)
       \<and> (\<forall>out. r = Inr (Some out) \<longrightarrow> fresh w \<le> out \<and> out < fresh w')"
proof (cases "\<exists>a. roi = Some a \<and> concat (concat (cells w a)) \<noteq> []")
  case False
  then have "r = Inr None \<and> w' = w"
    using run unfolding create_single_pseudo_depth_map_def
    by (auto simp del: concat_eq_Nil_conv split: option.splits if_splits)
  then show ?thesis using False by (simp add: unchanged_below_refl del: concat_eq_Nil_conv)
next
  case True
  then obtain a where roi: "roi = Some a" and ne: "concat (concat (cells w a)) \<noteq> []" by blast
  obtain r1 w1 where s1: "pd_blur cv args a w = (r1, w1)" by (cases "pd_blur cv args a w")
  note f1 = pd_blur_frame[OF s1, folded k1_def]
  have log1: "blur_calls w1 = blur_calls w @ [k1]" using f1(2) .
  show ?thesis
  proof (cases r1)
    case (Inl e)
    then have "r = Inl e \<and> w' = w1"
      using run roi ne s1 unfolding create_single_pseudo_depth_map_def
      by (simp del: concat_eq_Nil_conv)
    then show ?thesis using f1(1) log1 by simp
  next
    case (Inr blurred_roi)
    obtain nb w2 where s2: "alloc (cv_normalize cv (cells w1 blurred_roi)) w1 = (nb, w2)"
      by (cases "alloc (cv_normalize cv (cells w1 blurred_roi)) w1")
    obtain dc w3 where s3: "alloc (cells w2 nb) w2 = (dc, w3)" by (cases "alloc (cells w2 nb) w2")
    obtain r4 w4 where s4: "pd_mask cv args dc w3 = (r4, w4)" by (cases "pd_mask cv args dc w3")
    note f2 = alloc_frame[OF s2] and f3 = alloc_frame[OF s3] and f4 = pd_mask_frame[OF s4]
    have u4: "unchanged_below w w4"
      using f1(1) f2(5) f3(5) f4(1) by (blast intro: unchanged_below_trans)
    have log4: "blur_calls w4 = blur_calls w @ [k1]" using log1 f2(4) f3(4) f4(2) by simp
    show ?thesis
    proof (cases "\<exists>msk masked. r4 = Inr msk \<and>
                     bitwise_and_mask (cells w4 dc) (cells w4 dc) (cells w4 msk) = Inr masked")
      case False
      then have "(\<exists>e. r = Inl e) \<and> w' = w4"
        using run roi ne s1 Inr s2 s3 s4 unfolding create_single_pseudo_depth_map_def
        by (auto simp del: concat_eq_Nil_conv split: sum.splits)
      then show ?thesis using u4 log4 by auto
    next
      case True
      then obtain msk masked where r4: "r4 = Inr msk"
        and bm: "bitwise_and_mask (cells w4 dc) (cells w4 dc) (cells w4 msk) = Inr masked" by blast
      obtain dfp w5 where s5: "alloc masked w4 = (dfp, w5)" by (cases "alloc masked w4")
      obtain r6 w6 where s6: "pd_resize cv args dfp msk w5 = (r6, w6)"
        by (cases "pd_resize cv args dfp msk w5")
      note f5 = alloc_frame[OF s5] and f6 = pd_resize_frame[OF s6]
      have u6: "unchanged_below w w6"
        using u4 f5(5) f6(1) by (blast intro: unchanged_below_trans)
      have log6: "blur_calls w6 = blur_calls w @ [k1]" using log4 f5(4) f6(2) by simp
      show ?thesis
      proof (cases "\<exists>dd dm. r6 = Inr (Some (dd, dm))")
        case False
        then have "(\<exists>e. r = Inl e) \<or> r = Inr None" and "w' = w6"
          using run roi ne s1 Inr s2 s3 s4 r4 bm s5 s6 unfolding create_single_pseudo_depth_map_def
          by (auto simp del: concat_eq_Nil_conv split: sum.splits option.splits)
        then show ?thesis using u6 log6 by auto
      next
        case True
        then obtain dd dm where r6: "r6 = Inr (Some (dd, dm))" by blast
        have dd: "fresh w \<le> dd" "dd < fresh w6"
          using f6(3)[OF r6] u4 f5(5) by (auto simp: unchanged_below_def)
        obtain r7 w7 where s7: "pd_colormap cv args dd dm w6 = (r7, w7)"
          by (cases "pd_colormap cv args dd dm w6")
        note f7 = pd_colormap_frame[OF s7]
        have u7: "unchanged_below w w7" using u6 f7(1) by (rule unchanged_below_trans)
        have log7: "blur_calls w7 = blur_calls w @ [k1]" using log6 f7(2) by simp
        show ?thesis
        proof (cases r7)
          case (Inl e)
          then have "r = Inl e \<and> w' = w7"
            using run roi ne s1 Inr s2 s3 s4 r4 bm s5 s6 r6 s7
            unfolding create_single_pseudo_depth_map_def
            by (simp add: \<open>r1 = Inr blurred_roi\<close> del: concat_eq_Nil_conv)
          then show ?thesis using u7 log7 by simp
        next
          case r7: (Inr p)
          obtain fb ic where p: "p = (fb, ic)" by (cases p)
          have fb: "fresh w \<le> fb" "fb < fresh w7"
            using f7(3)[of fb ic] r7 p dd f7(1) by (auto simp: unchanged_below_def)
          obtain r8 w8 where s8: "pd_brightness cv args fb ic dm w7 = (r8, w8)"
            by (cases "pd_brightness cv args fb ic dm w7")
          note f8 = pd_brightness_frame[OF s8]
          have u8: "unchanged_below w w8" using u7 f8(1) by (rule unchanged_below_trans)
          have log8: "blur_calls w8 = blur_calls w @ [k1]" using log7 f8(2) by simp
          show ?thesis
          proof (cases r8)
            case (Inl e)
            then have "r = Inl e \<and> w' = w8"
              using run roi ne s1 \<open>r1 = Inr blurred_roi\<close> s2 s3 s4 r4 bm s5 s6 r6 s7 r7 p s8
              unfolding create_single_pseudo_depth_map_def by (simp del: concat_eq_Nil_conv)
            then show ?thesis using u8 log8 by simp
          next
            case r8: (Inr fa)
            have fa: "fresh w \<le> fa" "fa < fresh w8"
              using f8(3)[OF r8] fb f8(1) by (auto simp: unchanged_below_def)
            obtain r9 w9 where s9: "pd_final_blur cv args fa ic dm w8 = (r9, w9)"
              by (cases "pd_final_blur cv args fa ic dm w8")
            note f9 = pd_final_blur_frame[OF s9, folded k2_def]
            have u9: "unchanged_below w w9" using u8 f9(1) by (rule unchanged_below_trans)
            have log9: "blur_calls w9 = blur_calls w @ [k1] \<or> blur_calls w9 = blur_calls w @ [k1, k2]"
              using log8 f9(2) by auto
            have res: "w' = w9 \<and> r = (case r9 of Inl e \<Rightarrow> Inl e | Inr fin \<Rightarrow> Inr (Some fin))"
              using run roi ne s1 \<open>r1 = Inr blurred_roi\<close> s2 s3 s4 r4 bm s5 s6 r6 s7 r7 p s8 r8 s9
              unfolding create_single_pseudo_depth_map_def
              by (simp del: concat_eq_Nil_conv split: sum.splits)
            have "fresh w \<le> out \<and> out < fresh w9" if "r = Inr (Some out)" for out
            proof -
              from that res have "r9 = Inr out" by (auto split: sum.splits)
              from f9(3)[OF this] fa f9(1) show ?thesis by (auto simp: unchanged_below_def)
            qed
            then show ?thesis using res u9 log9 by auto
          qed
        qed
      qed
    qed
  qed
qed

text \<open>
  C7. Every call of \<^verbatim>\<open>cv2.GaussianBlur\<close> made by
  \<^verbatim>\<open>_create_single_pseudo_depth_map\<close> gets a kernel whose even dimensions were
  replaced by the next odd value and whose odd dimensions are unchanged: the calls of
  a run are none, the initial blur with the adjusted \<^verbatim>\<open>blur_kernel_size\<close>, or the
  initial blur followed by the final blur with the adjusted
  \<^verbatim>\<open>final_blur_kernel_size\<close>. For a face crop that is not empty the initial blur is
  called.
\<close>

theorem blur_kernels_forced_odd:
  "let next_odd = (\<lambda>k::int. if even k then k + 1 else k);
       k1 = (next_odd (fst (blur_kernel_size args)), next_odd (snd (blur_kernel_size args)));
       k2 = (next_odd (fst (final_blur_kernel_size args)),
             next_odd (snd (final_blur_kernel_size args)));
       calls = blur_calls (snd (create_single_pseudo_depth_map cv args roi w))
   in (calls = blur_calls w \<or> calls = blur_calls w @ [k1] \<or> calls = blur_calls w @ [k1, k2])
      \<and> ((case roi of None \<Rightarrow> False | Some a \<Rightarrow> concat (concat (cells w a)) \<noteq> [])
           \<longrightarrow> calls \<noteq> blur_calls w)"
proof -
  obtain r w' where run: "create_single_pseudo_depth_map cv args roi w = (r, w')"
    by (cases "create_single_pseudo_depth_map cv args roi w")
  have "(case roi of None \<Rightarrow> False | Some a \<Rightarrow> concat (concat (cells w a)) \<noteq> [])
        = (\<exists>a. roi = Some a \<and> concat (concat (cells w a)) \<noteq> [])"
    by (cases roi) simp_all
  then show ?thesis
    using create_single_pseudo_depth_map_effect[OF run]
    unfolding Let_def run snd_conv by (simp del: concat_eq_Nil_conv)
qed

theorem blur_kernels_forced_odd_witness:
  "concat (concat (cells example_roi_world 0)) \<noteq> []
   \<and> blur_calls (snd (create_single_pseudo_depth_map example_cv
                      (example_args\<lparr>apply_colormap := False\<rparr>) (Some 0) example_roi_world))
       \<noteq> blur_calls example_roi_world
   \<and> blur_calls (snd (create_single_pseudo_depth_map example_cv
                      (example_args\<lparr>apply_colormap := False\<rparr>) (Some 0) example_roi_world))
       = [(41, 41)]"
proof -
  have h: "concat (concat (cells example_roi_world 0)) \<noteq> []" by code_simp
  have v: "blur_calls (snd (create_single_pseudo_depth_map example_cv
                      (example_args\<lparr>apply_colormap := False\<rparr>) (Some 0) example_roi_world))
           = [(41, 41)]"
    by code_simp
  from blur_kernels_forced_odd[of "example_args\<lparr>apply_colormap := False\<rparr>" example_cv
         "Some 0" example_roi_world] h
  have "blur_calls (snd (create_single_pseudo_depth_map example_cv
                      (example_args\<lparr>apply_colormap := False\<rparr>) (Some 0) example_roi_world))
        \<noteq> blur_calls example_roi_world"
    unfolding Let_def by (simp del: concat_eq_Nil_conv)
  then show ?thesis using h v by blast
qed

section \<open>Masking\<close>

lemma map2_absorb:
  assumes "\<And>x y. f (f x y) y = f x y"
  shows "map2 f (map2 f xs ys) ys = map2 f xs ys"
proof (induction xs arbitrary: ys)
  case Nil
  then show ?case by simp
next
  case (Cons x xs)
  then show ?case using assms by (cases ys) simp_all
qed

lemma map2_diag: "map2 (\<lambda>(a, b) c. g a b c) (zip xs xs) ys = map2 (\<lambda>a c. g a a c) xs ys"
proof (induction xs arbitrary: ys)
  case Nil
  then show ?case by simp
next
  case (Cons x xs)
  then show ?case by (cases ys) simp_all
qed

lemma map_length_map2:
  assumes "map length ms = map length xs"
  shows "map length (map2 (map2 f) xs ms) = map length xs"
  using assms
proof (induction xs arbitrary: ms)
  case Nil
  then show ?case by simp
next
  case (Cons x xs)
  then show ?case by (cases ms) simp_all
qed

lemma shape3_map2:
  assumes "shape3 a = shape3 b"
  shows "shape3 (map2 (map2 (map2 f)) a b) = shape3 a"
  using assms unfolding shape3_def
proof (induction a arbitrary: b)
  case Nil
  then show ?case by simp
next
  case (Cons x xs)
  then obtain y ys where b: "b = y # ys" by (cases b) auto
  have row: "map length (map2 (map2 f) p q) = map length p" if "map length p = map length q"
    for p q :: "8 word list list"
    using that
  proof (induction p arbitrary: q)
    case Nil
    then show ?case by simp
  next
    case (Cons u us)
    then show ?case by (cases q) simp_all
  qed
  show ?case using Cons b row by simp
qed

lemma masked_pixel_absorb: "masked_pixel (masked_pixel p m) m = masked_pixel p m"
  by (simp add: masked_pixel_def zip_same_conv_map comp_def)

lemma bitwise_and_mask_same:
  "bitwise_and_mask src src msk =
     (if map length msk = map length src \<and> list_all (list_all (\<lambda>m. length m = 1)) msk
      then Inr (map2 (map2 masked_pixel) src msk) else Inl CvError)"
proof -
  have inner:
    "map2 (\<lambda>(p1, p2) m. if m \<noteq> [0] then map2 (\<lambda>a b. a AND b) p1 p2 else map (\<lambda>_. 0) p1)
       (zip r r) rm = map2 masked_pixel r rm" for r rm
    unfolding masked_pixel_def by (rule map2_diag)
  show ?thesis
    unfolding bitwise_and_mask_def
    by (simp add: map2_diag[where g="\<lambda>r1 r2 rm. map2 (\<lambda>(p1, p2) m.
          if m \<noteq> [0] then map2 (\<lambda>a b. a AND b) p1 p2 else map (\<lambda>_. 0) p1) (zip r1 r2) rm"]
        inner)
qed

lemma bitwise_and_mask_absorb:
  assumes "bitwise_and_mask img img m = Inr r"
  shows "bitwise_and_mask r r m = Inr r"
proof -
  have c: "map length m = map length img" "list_all (list_all (\<lambda>m. length m = 1)) m"
    and r: "r = map2 (map2 masked_pixel) img m"
    using assms unfolding bitwise_and_mask_same by (auto split: if_splits)
  have "map length r = map length img" unfolding r by (rule map_length_map2[OF c(1)])
  then have len: "map length m = map length r" using c(1) by simp
  have "map2 (map2 masked_pixel) r m = r"
    unfolding r by (rule map2_absorb) (rule map2_absorb, rule masked_pixel_absorb)
  then show ?thesis unfolding bitwise_and_mask_same using len c(2) by simp
qed

lemma bitwise_and_absorb:
  assumes "bitwise_and img m = Inr r"
  shows "bitwise_and r m = Inr r"
proof -
  have sh: "shape3 img = shape3 m" and r: "r = map2 (map2 (map2 (\<lambda>a b. a AND b))) img m"
    using assms by (auto simp: bitwise_and_def split: if_splits)
  have p1: "map2 (\<lambda>a b. a AND b) (map2 (\<lambda>a b. a AND b) p q) q = map2 (\<lambda>a b. a AND b) p q"
    for p q :: "8 word list"
    by (rule map2_absorb) (simp add: and.assoc)
  have p2: "map2 (map2 (\<lambda>a b. a AND b)) (map2 (map2 (\<lambda>a b. a AND b)) p q) q
            = map2 (map2 (\<lambda>a b. a AND b)) p q" for p q :: "8 word list list"
    by (rule map2_absorb) (rule p1)
  have p3: "map2 (map2 (map2 (\<lambda>a b. a AND b))) r m = r"
    unfolding r by (rule map2_absorb) (rule p2)
  have "shape3 r = shape3 img" unfolding r by (rule shape3_map2[OF sh])
  then show ?thesis using p3 sh by (simp add: bitwise_and_def)
qed

text \<open>
  C8. Applying the mask a second time changes nothing. Both ways the generator
  applies its mask are covered: the masked copy of step 4,
  \<^verbatim>\<open>cv2.bitwise_and(x, x, mask=mask)\<close>, and the conjunction with the three-channel mask
  of steps 6 to 8, \<^verbatim>\<open>cv2.bitwise_and(x, display_mask_3ch)\<close>. Whenever the first
  application returns an array, the second application returns the same array. This
  holds for every mask, so in particular for the elliptical one.
\<close>

theorem mask_application_idempotent:
  "(bitwise_and_mask img img m = Inr r \<longrightarrow> bitwise_and_mask r r m = Inr r)
   \<and> (bitwise_and img3 m3 = Inr r3 \<longrightarrow> bitwise_and r3 m3 = Inr r3)"
  using bitwise_and_mask_absorb bitwise_and_absorb by blast

theorem mask_application_idempotent_witness:
  "bitwise_and_mask example_roi example_roi [[[255], [0]], [[255], [255]]]
     = Inr [[[10], [0]], [[30], [40]]]
   \<and> bitwise_and_mask [[[10], [0]], [[30], [40]]] [[[10], [0]], [[30], [40]]]
         [[[255], [0]], [[255], [255]]]
     = Inr [[[10], [0]], [[30], [40]]]
   \<and> bitwise_and [[[245, 245, 245], [255, 255, 255]]] [[[255, 255, 255], [0, 0, 0]]]
     = Inr [[[245, 245, 245], [0, 0, 0]]]
   \<and> bitwise_and [[[245, 245, 245], [0, 0, 0]]] [[[255, 255, 255], [0, 0, 0]]]
     = Inr [[[245, 245, 245], [0, 0, 0]]]"
proof -
  have h1: "bitwise_and_mask example_roi example_roi [[[255], [0]], [[255], [255]]]
              = Inr [[[10], [0]], [[30], [40]]]"
    by code_simp
  have h2: "bitwise_and [[[245, 245, 245], [255, 255, 255]]] [[[255, 255, 255], [0, 0, 0]]]
              = Inr [[[245, 245, 245], [0, 0, 0]]]"
    by code_simp
  show ?thesis
    using h1 h2
      mask_application_idempotent[of example_roi "[[[255], [0]], [[255], [255]]]"
        "[[[10], [0]], [[30], [40]]]" "[[[245, 245, 245], [255, 255, 255]]]"
        "[[[255, 255, 255], [0, 0, 0]]]" "[[[245, 245, 245], [0, 0, 0]]]"]
    by blast
qed

section \<open>The recognition server: what a run does to the store\<close>

text \<open>
  The dot loop writes into \<^verbatim>\<open>img_display\<close> only, the heatmap visualisation into
  \<^verbatim>\<open>overlay\<close> and its own mask only; both are arrays the function created.
\<close>

lemma filter_face_dots_frame:
  "filter_face_dots env g f d kps w = (r, w') \<Longrightarrow>
     fresh w' = fresh w \<and> blur_calls w' = blur_calls w \<and> (\<forall>b. b \<noteq> d \<longrightarrow> cells w' b = cells w b)"
proof (induction kps arbitrary: w r w')
  case Nil
  then show ?case by simp
next
  case (Cons kp kps)
  obtain fx fy fw fh where f: "f = (fx, fy, fw, fh)" by (cases f) auto
  let ?x = "py_int (fst kp)" and ?y = "py_int (snd kp)"
  let ?w1 = "store_at d (draw_circle env (cells w d) (?x, ?y)) w"
  from Cons.prems consider
      "r = Inl IndexError \<and> w' = w"
    | "filter_face_dots env g f d kps w = (r, w')"
    | r' where "filter_face_dots env g f d kps ?w1 = (r', w')"
    by (auto simp: f Let_def index2_def split: if_splits sum.splits prod.splits)
  then show ?case
  proof cases
    case 1
    then show ?thesis by simp
  next
    case 2
    then show ?thesis using Cons.IH by blast
  next
    case 3
    from Cons.IH[OF 3] show ?thesis by simp
  qed
qed

lemma heatmap_visualisation_frame:
  assumes "heatmap_visualisation env a f hm ov w = (r, w')"
  shows "fresh w \<le> fresh w' \<and> blur_calls w' = blur_calls w
         \<and> (\<forall>b<fresh w. b \<noteq> ov \<longrightarrow> cells w' b = cells w b)"
  using assms unfolding heatmap_visualisation_def
  by (auto simp: alloc_def Let_def split: prod.splits sum.splits if_splits)

lemma heatmap_stage_frame:
  assumes "heatmap_stage env a f dots ov w = (r, w')"
  shows "fresh w \<le> fresh w' \<and> blur_calls w' = blur_calls w
         \<and> (\<forall>b<fresh w. b \<noteq> ov \<longrightarrow> cells w' b = cells w b)"
  using assms unfolding heatmap_stage_def
  by (auto simp: Let_def split: prod.splits sum.splits if_splits dest!: heatmap_visualisation_frame)

lemma dot_extraction_frame:
  assumes "dot_extraction env a w = (r, w')"
  shows "fresh w' = Suc (fresh w) \<and> blur_calls w' = blur_calls w
         \<and> (\<forall>b<fresh w. cells w' b = cells w b)
         \<and> (\<forall>g f dots d l. r = Inr (Some (g, f, dots, d, l)) \<longrightarrow> d = fresh w)"
  using assms unfolding dot_extraction_def
  by (auto simp: alloc_def Let_def split: prod.splits sum.splits if_splits dest!: filter_face_dots_frame)

lemma before_comparison_frame:
  assumes "before_comparison env a w = (r, w')"
  shows "unchanged_below w w' \<and> blur_calls w' = blur_calls w"
proof -
  obtain r0 w3 where d: "dot_extraction env a w = (r0, w3)" by (cases "dot_extraction env a w")
  note fr = dot_extraction_frame[OF d]
  have u3: "unchanged_below w w3 \<and> blur_calls w3 = blur_calls w"
    using fr by (simp add: unchanged_below_def)
  show ?thesis
  proof (cases "\<exists>g f dots dd l. r0 = Inr (Some (g, f, dots, dd, l))
                   \<and> (\<exists>u. (if length dots > 5 then plot_point_cloud env (map fst dots) (map snd dots) else Inr ()) = Inr u)")
    case False
    then have "w' = w3" using assms d unfolding before_comparison_def
      by (auto split: sum.splits option.splits prod.splits if_splits)
    then show ?thesis using u3 by simp
  next
    case True
    then obtain g f dots dd l where r0: "r0 = Inr (Some (g, f, dots, dd, l))"
      and pl: "\<exists>u. (if length dots > 5 then plot_point_cloud env (map fst dots) (map snd dots) else Inr ()) = Inr u"
      by blast
    have dd: "dd = fresh w" using fr r0 by blast
    obtain ov w4 where al: "alloc (cells w3 dd) w3 = (ov, w4)" by (cases "alloc (cells w3 dd) w3")
    obtain hm w5 where hs: "heatmap_stage env a f dots ov w4 = (hm, w5)"
      by (cases "heatmap_stage env a f dots ov w4")
    have w': "w' = w5" using assms d r0 pl al hs unfolding before_comparison_def
      by (auto split: sum.splits)
    note a4 = alloc_frame[OF al]
    note h5 = heatmap_stage_frame[OF hs]
    have "fresh w \<le> fresh w5" using fr a4 h5 by simp
    moreover have "cells w5 b = cells w b" if "b < fresh w" for b
    proof -
      have "b < fresh w4" "b \<noteq> ov" using that fr a4 by simp_all
      then have "cells w5 b = cells w4 b" using h5 by blast
      also have "\<dots> = cells w3 b" using a4 \<open>b \<noteq> ov\<close> by simp
      also have "\<dots> = cells w b" using fr that by blast
      finally show ?thesis .
    qed
    moreover have "blur_calls w5 = blur_calls w" using fr a4 h5 by simp
    ultimately show ?thesis unfolding w' unchanged_below_def by blast
  qed
qed

lemma perform_liveness_check_frame:
  assumes "perform_liveness_check env a w = (r, w')"
  shows "unchanged_below w w' \<and> blur_calls w' = blur_calls w"
proof -
  obtain r0 w5 where b: "before_comparison env a w = (r0, w5)" by (cases "before_comparison env a w")
  have "w' = w5" using assms b unfolding perform_liveness_check_def
    by (auto split: sum.splits option.splits prod.splits)
  then show ?thesis using before_comparison_frame[OF b] by simp
qed

lemma perform_liveness_check_after:
  assumes "fst (before_comparison env a w) = Inr (Some (g, f, hm, l))" "a < fresh w"
  shows "fst (perform_liveness_check env a w) =
           (case liveness_decision env (cells w a) g f hm l of
              Inl e \<Rightarrow> Inl e
            | Inr (live, score) \<Rightarrow>
                Inr \<lparr>is_live = live, similarity_score = Some score, heatmap_norm = hm\<rparr>)"
proof -
  obtain r0 w5 where b: "before_comparison env a w = (r0, w5)" by (cases "before_comparison env a w")
  have r0: "r0 = Inr (Some (g, f, hm, l))" using assms(1) b by simp
  have "cells w5 a = cells w a"
    using before_comparison_frame[OF b] assms(2) by (simp add: unchanged_below_def)
  then show ?thesis unfolding perform_liveness_check_def b r0
    by (simp split: sum.splits prod.splits)
qed

text \<open>
  C9. Neither function mutates the caller's array. For a frame that exists when
  \<^verbatim>\<open>perform_liveness_check\<close> is called, its contents after the run are its contents
  before, and so are the contents of every other array that existed before the run; the
  function returns a boolean, no array. The same holds for the face crop given to
  \<^verbatim>\<open>_create_single_pseudo_depth_map\<close>, and the image that function returns is an
  array created during the run, never the caller's. (When the initial blur raises, the
  local name \<^verbatim>\<open>blurred_roi\<close> is bound to the caller's array, which is then only read.)
\<close>

theorem input_frame_not_mutated:
  assumes "a < fresh w"
  shows "cells (snd (perform_liveness_check env a w)) a = cells w a
       \<and> unchanged_below w (snd (perform_liveness_check env a w))
       \<and> cells (snd (create_single_pseudo_depth_map cv args (Some a) w)) a = cells w a
       \<and> unchanged_below w (snd (create_single_pseudo_depth_map cv args (Some a) w))
       \<and> (\<forall>out. fst (create_single_pseudo_depth_map cv args (Some a) w) = Inr (Some out)
              \<longrightarrow> out \<noteq> a \<and> fresh w \<le> out)"
proof -
  obtain r1 w1 where p: "perform_liveness_check env a w = (r1, w1)"
    by (cases "perform_liveness_check env a w")
  obtain r2 w2 where c: "create_single_pseudo_depth_map cv args (Some a) w = (r2, w2)"
    by (cases "create_single_pseudo_depth_map cv args (Some a) w")
  have u1: "unchanged_below w w1" using perform_liveness_check_frame[OF p] by simp
  have e2: "unchanged_below w w2"
    and o2: "\<forall>out. r2 = Inr (Some out) \<longrightarrow> fresh w \<le> out \<and> out < fresh w2"
    using create_single_pseudo_depth_map_effect[OF c] by simp_all
  show ?thesis
    using u1 e2 o2 assms unfolding p c by (auto simp: unchanged_below_def)
qed

theorem input_frame_not_mutated_witness:
  "0 < fresh example_world
   \<and> cells (snd (perform_liveness_check (example_env [(0, 0, 4, 4)] six_dots) 0 example_world)) 0
       = example_frame
   \<and> 0 < fresh example_roi_world
   \<and> cells (snd (create_single_pseudo_depth_map example_cv
                  (example_args\<lparr>apply_colormap := False\<rparr>) (Some 0) example_roi_world)) 0
       = example_roi
   \<and> fst (create_single_pseudo_depth_map example_cv
             (example_args\<lparr>apply_colormap := False\<rparr>) (Some 0) example_roi_world)
       = Inr (Some 6)"
proof -
  have h1: "0 < fresh example_world" by (simp add: example_world_def)
  have h2: "0 < fresh example_roi_world" by (simp add: example_roi_world_def)
  have c1: "cells example_world 0 = example_frame" by (simp add: example_world_def)
  have c2: "cells example_roi_world 0 = example_roi" by (simp add: example_roi_world_def)
  have v: "fst (create_single_pseudo_depth_map example_cv
             (example_args\<lparr>apply_colormap := False\<rparr>) (Some 0) example_roi_world)
           = Inr (Some 6)"
    by code_simp
  show ?thesis
    using input_frame_not_mutated[OF h1, of "example_env [(0, 0, 4, 4)] six_dots" example_cv
            "example_args\<lparr>apply_colormap := False\<rparr>"]
          input_frame_not_mutated[OF h2, of "example_env [(0, 0, 4, 4)] six_dots" example_cv
            "example_args\<lparr>apply_colormap := False\<rparr>"]
          h1 h2 c1 c2 v
    by simp
qed

section \<open>The recognition server: the verdict\<close>

lemma perform_liveness_check_verdict:
  assumes "fst (before_comparison env a w) = Inr (Some (g, f, hm, l))"
  shows "fst (perform_liveness_check env a w) =
           (case liveness_decision env (cells (snd (before_comparison env a w)) a) g f hm l of
              Inl e \<Rightarrow> Inl e
            | Inr (live, score) \<Rightarrow>
                Inr \<lparr>is_live = live, similarity_score = Some score, heatmap_norm = hm\<rparr>)"
  using assms unfolding perform_liveness_check_def
  by (cases "before_comparison env a w") (simp split: sum.splits prod.splits)

lemma liveness_decision_no_heatmap:
  "liveness_decision env frame g f None l = Inr (False, Fl (- 1))"
  by (simp add: liveness_decision_def)



lemma depth_comparison_result:
  assumes "depth_comparison env frame g f h = Inr (l, sc)"
  shows "l = (case ssim env of Some _ \<Rightarrow> float_gt sc (3 / 10) | None \<Rightarrow> float_lt sc (5 / 100))"
  using assms unfolding depth_comparison_def
  by (auto simp: Let_def split: prod.splits sum.splits if_splits option.splits)

lemma depth_comparison_NaN:
  assumes "depth_comparison env frame g f h = Inr (l, NaN)"
  shows "l = False"
  using depth_comparison_result[OF assms]
  by (simp add: float_gt_def float_lt_def split: option.splits)

lemma depth_comparison_live:
  assumes "depth_comparison env frame g f h = Inr (True, sc)"
  shows "\<exists>s. sc = Fl s"
  using depth_comparison_NaN[of env frame g f h True] assms by (cases sc) auto

text \<open>
  C1, as the code has it. When the run reaches step 8 with a heatmap and a loaded
  depth model: an exception of class \<^verbatim>\<open>Exception\<close> that leaves the body of the
  \<^verbatim>\<open>try\<close> which computes and thresholds the similarity score does not reach the
  caller, and \<^verbatim>\<open>perform_liveness_check\<close> returns with \<^verbatim>\<open>is_live = False\<close> and
  \<^verbatim>\<open>similarity_score = -1.0\<close>; a score that is NaN raises nothing, and the function
  returns with \<^verbatim>\<open>is_live = False\<close> and the NaN score; and the function returns
  \<^verbatim>\<open>is_live = True\<close> only when the comparison completed with a score that is a number.
  (The function returns \<^verbatim>\<open>is_live\<close>; the score is the local name at the return.)
\<close>

theorem scoring_exception_fails_closed:
  assumes "a < fresh w"
      and "fst (before_comparison env a w) = Inr (Some (g, f, Some h, True))"
  shows "(\<forall>e. depth_comparison env (cells w a) g f h = Inl e \<and> is_Exception e \<longrightarrow>
            fst (perform_liveness_check env a w)
            = Inr \<lparr>is_live = False, similarity_score = Some (Fl (- 1)), heatmap_norm = Some h\<rparr>)
       \<and> (\<forall>l. depth_comparison env (cells w a) g f h = Inr (l, NaN) \<longrightarrow>
            fst (perform_liveness_check env a w)
            = Inr \<lparr>is_live = False, similarity_score = Some NaN, heatmap_norm = Some h\<rparr>)
       \<and> (\<forall>v. fst (perform_liveness_check env a w) = Inr v \<and> is_live v \<longrightarrow>
            (\<exists>s. depth_comparison env (cells w a) g f h = Inr (True, Fl s)
                 \<and> similarity_score v = Some (Fl s)))"
proof -
  note pa = perform_liveness_check_after[OF assms(2,1)]
  have c1: "fst (perform_liveness_check env a w)
            = Inr \<lparr>is_live = False, similarity_score = Some (Fl (- 1)), heatmap_norm = Some h\<rparr>"
    if "depth_comparison env (cells w a) g f h = Inl e \<and> is_Exception e" for e
    using pa that by (simp add: liveness_decision_def)
  have c2: "fst (perform_liveness_check env a w)
            = Inr \<lparr>is_live = False, similarity_score = Some NaN, heatmap_norm = Some h\<rparr>"
    if "depth_comparison env (cells w a) g f h = Inr (l, NaN)" for l
    using pa that depth_comparison_NaN[OF that] by (simp add: liveness_decision_def)
  have c3: "\<exists>s. depth_comparison env (cells w a) g f h = Inr (True, Fl s)
                \<and> similarity_score v = Some (Fl s)"
    if v: "fst (perform_liveness_check env a w) = Inr v \<and> is_live v" for v
  proof (cases "depth_comparison env (cells w a) g f h")
    case (Inl e)
    then show ?thesis using pa v by (auto simp: liveness_decision_def split: if_splits)
  next
    case (Inr r)
    obtain l sc where r: "r = (l, sc)" by (cases r)
    have pv: "fst (perform_liveness_check env a w)
              = Inr \<lparr>is_live = l, similarity_score = Some sc, heatmap_norm = Some h\<rparr>"
      using pa Inr r by (simp add: liveness_decision_def)
    then have "l = True" "similarity_score v = Some sc" using v by auto
    moreover from depth_comparison_live[of env "cells w a" g f h sc] Inr r \<open>l = True\<close>
    obtain s where "sc = Fl s" by auto
    ultimately show ?thesis using Inr r by simp
  qed
  show ?thesis using c1 c2 c3 by blast
qed

theorem scoring_exception_fails_closed_witness:
  "0 < fresh example_world
   \<and> fst (before_comparison (example_env_ssim (Inl ValueError)) 0 example_world)
       = Inr (Some (example_gray, (0, 0, 4, 4), Some example_heatmap, True))
   \<and> depth_comparison (example_env_ssim (Inl ValueError)) (cells example_world 0) example_gray
         (0, 0, 4, 4) example_heatmap
       = Inl ValueError
   \<and> is_Exception ValueError
   \<and> fst (perform_liveness_check (example_env_ssim (Inl ValueError)) 0 example_world)
       = Inr \<lparr>is_live = False, similarity_score = Some (Fl (- 1)),
              heatmap_norm = Some example_heatmap\<rparr>
   \<and> fst (before_comparison (example_env_ssim (Inr NaN)) 0 example_world)
       = Inr (Some (example_gray, (0, 0, 4, 4), Some example_heatmap, True))
   \<and> depth_comparison (example_env_ssim (Inr NaN)) (cells example_world 0) example_gray
         (0, 0, 4, 4) example_heatmap
       = Inr (False, NaN)
   \<and> fst (perform_liveness_check (example_env_ssim (Inr NaN)) 0 example_world)
       = Inr \<lparr>is_live = False, similarity_score = Some NaN, heatmap_norm = Some example_heatmap\<rparr>
   \<and> fst (before_comparison (example_env_ssim (Inr (Fl (9 / 10)))) 0 example_world)
       = Inr (Some (example_gray, (0, 0, 4, 4), Some example_heatmap, True))
   \<and> fst (perform_liveness_check (example_env_ssim (Inr (Fl (9 / 10)))) 0 example_world)
       = Inr \<lparr>is_live = True, similarity_score = Some (Fl (9 / 10)),
              heatmap_norm = Some example_heatmap\<rparr>
   \<and> (\<exists>s. depth_comparison (example_env_ssim (Inr (Fl (9 / 10)))) (cells example_world 0)
              example_gray (0, 0, 4, 4) example_heatmap = Inr (True, Fl s))"
proof -
  let ?err = "example_env_ssim (Inl ValueError)"
  let ?nan = "example_env_ssim (Inr NaN)"
  let ?ok = "example_env_ssim (Inr (Fl (9 / 10)))"
  let ?some = "Inr (Some (example_gray, (0, 0, 4, 4), Some example_heatmap, True))"
  have h1: "0 < fresh example_world" by (simp add: example_world_def)
  have b1: "fst (before_comparison ?err 0 example_world) = ?some" by code_simp
  have b2: "fst (before_comparison ?nan 0 example_world) = ?some" by code_simp
  have b3: "fst (before_comparison ?ok 0 example_world) = ?some" by code_simp
  have d1: "depth_comparison ?err (cells example_world 0) example_gray (0, 0, 4, 4)
              example_heatmap = Inl ValueError"
    by code_simp
  have d2: "depth_comparison ?nan (cells example_world 0) example_gray (0, 0, 4, 4)
              example_heatmap = Inr (False, NaN)"
    by code_simp
  have p3: "fst (perform_liveness_check ?ok 0 example_world)
            = Inr \<lparr>is_live = True, similarity_score = Some (Fl (9 / 10)),
                   heatmap_norm = Some example_heatmap\<rparr>"
    by code_simp
  have e1: "is_Exception ValueError" by (simp add: is_Exception_def)
  note t1 = scoring_exception_fails_closed[OF h1 b1]
  note t2 = scoring_exception_fails_closed[OF h1 b2]
  note t3 = scoring_exception_fails_closed[OF h1 b3]
  have r1: "fst (perform_liveness_check ?err 0 example_world)
            = Inr \<lparr>is_live = False, similarity_score = Some (Fl (- 1)),
                   heatmap_norm = Some example_heatmap\<rparr>"
    using t1 d1 e1 by blast
  have r2: "fst (perform_liveness_check ?nan 0 example_world)
            = Inr \<lparr>is_live = False, similarity_score = Some NaN,
                   heatmap_norm = Some example_heatmap\<rparr>"
    using t2 d2 by blast
  have r3: "\<exists>s. depth_comparison ?ok (cells example_world 0) example_gray (0, 0, 4, 4)
                   example_heatmap = Inr (True, Fl s)"
    using t3 p3 by auto
  show ?thesis using h1 b1 b2 b3 d1 d2 e1 r1 r2 p3 r3 by blast
qed

text \<open>
  C1 as stated fails in its case of NaN propagation: a similarity score that is NaN
  raises no exception, so the handler does not run and the score at the return is NaN,
  not -1.0 (the verdict is not live all the same). And an exception that is not an
  \<^verbatim>\<open>Exception\<close>, such as \<^verbatim>\<open>SystemExit\<close>, passes the handler and reaches the caller.
\<close>

theorem scoring_nan_counterexample:
  "fst (perform_liveness_check (example_env_ssim (Inr NaN)) 0 example_world)
     = Inr \<lparr>is_live = False, similarity_score = Some NaN, heatmap_norm = Some example_heatmap\<rparr>
   \<and> NaN \<noteq> Fl (- 1)
   \<and> fst (perform_liveness_check (example_env_ssim (Inl SystemExit)) 0 example_world)
     = Inl SystemExit"
proof -
  have "fst (perform_liveness_check (example_env_ssim (Inr NaN)) 0 example_world)
     = Inr \<lparr>is_live = False, similarity_score = Some NaN, heatmap_norm = Some example_heatmap\<rparr>"
    by code_simp
  moreover have "fst (perform_liveness_check (example_env_ssim (Inl SystemExit)) 0 example_world)
     = Inl SystemExit"
    by code_simp
  ultimately show ?thesis by simp
qed




lemma before_comparison_few_dots:
  assumes "fst (dot_extraction env a w) = Inr (Some (g, f, dots, d, l))" "length dots \<le> 5"
  shows "fst (before_comparison env a w) = Inr (Some (g, f, None, l))"
  using assms unfolding before_comparison_def heatmap_stage_def
  by (cases "dot_extraction env a w") (auto split: prod.splits)

text \<open>
  C4, as the code has it. When step 6 retains five dots or fewer, no heatmap is built
  and the depth comparison is skipped: \<^verbatim>\<open>perform_liveness_check\<close> returns normally
  with \<^verbatim>\<open>is_live = False\<close>, \<^verbatim>\<open>similarity_score = -1.0\<close> and
  \<^verbatim>\<open>heatmap_norm = None\<close>.
\<close>

theorem few_dots_skip_downstream:
  assumes "fst (dot_extraction env a w) = Inr (Some (g, f, dots, d, loaded))"
      and "length dots \<le> 5"
  shows "fst (perform_liveness_check env a w)
         = Inr \<lparr>is_live = False, similarity_score = Some (Fl (- 1)), heatmap_norm = None\<rparr>"
  using perform_liveness_check_verdict[OF before_comparison_few_dots[OF assms]]
  by (simp add: liveness_decision_no_heatmap)

theorem few_dots_skip_downstream_witness:
  "fst (dot_extraction (example_env [(0, 0, 4, 4)] (butlast six_dots)) 0 example_world)
     = Inr (Some (example_gray, (0, 0, 4, 4),
                  [((1, 1), 55), ((2, 1), 55), ((1, 2), 55), ((2, 2), 55), ((1, 2), 55)], 1, True))
   \<and> length [((1::int, 1::int), 55 :: 8 word), ((2, 1), 55), ((1, 2), 55), ((2, 2), 55), ((1, 2), 55)] \<le> 5
   \<and> fst (perform_liveness_check (example_env [(0, 0, 4, 4)] (butlast six_dots)) 0 example_world)
       = Inr \<lparr>is_live = False, similarity_score = Some (Fl (- 1)), heatmap_norm = None\<rparr>"
proof -
  have h1: "fst (dot_extraction (example_env [(0, 0, 4, 4)] (butlast six_dots)) 0 example_world)
     = Inr (Some (example_gray, (0, 0, 4, 4),
                  [((1, 1), 55), ((2, 1), 55), ((1, 2), 55), ((2, 2), 55), ((1, 2), 55)], 1, True))"
    by code_simp
  have h2: "length [((1::int, 1::int), 55 :: 8 word), ((2, 1), 55), ((1, 2), 55), ((2, 2), 55), ((1, 2), 55)] \<le> 5"
    by simp
  show ?thesis using h1 h2 few_dots_skip_downstream[OF h1 h2] by blast
qed

text \<open>
  C4 as stated fails: with five dots the heatmap is not built and the comparison does
  not run, although in this environment it would score 0.9, as it does with six dots.
\<close>

theorem few_dots_counterexample:
  "fst (perform_liveness_check (example_env [(0, 0, 4, 4)] (butlast six_dots)) 0 example_world)
     = Inr \<lparr>is_live = False, similarity_score = Some (Fl (- 1)), heatmap_norm = None\<rparr>
   \<and> fst (perform_liveness_check (example_env [(0, 0, 4, 4)] six_dots) 0 example_world)
     = Inr \<lparr>is_live = True, similarity_score = Some (Fl (9 / 10)),
            heatmap_norm = Some example_heatmap\<rparr>"
  by code_simp

section \<open>The heatmap\<close>

lemma finite_cells_Nil_iff: "finite_cells a = [] \<longleftrightarrow> (\<forall>c\<in>set (concat a). c = NaN)"
proof -
  have "(case c of Fl v \<Rightarrow> [v] | NaN \<Rightarrow> []) = [] \<longleftrightarrow> c = NaN" for c :: pyfloat
    by (cases c) simp_all
  then show ?thesis unfolding finite_cells_def by simp
qed

lemma nanmedian_NaN_iff: "nanmedian a = NaN \<longleftrightarrow> (\<forall>c\<in>set (concat a). c = NaN)"
proof -
  have "nanmedian a = NaN \<longleftrightarrow> finite_cells a = []"
    unfolding nanmedian_def Let_def by auto
  then show ?thesis by (simp add: finite_cells_Nil_iff)
qed

lemma fill_nan_cells:
  "fill_nan a =
     map (map (\<lambda>c. case c of
                      NaN \<Rightarrow> (if \<forall>c'\<in>set (concat a). c' = NaN then Fl 0 else nanmedian a)
                    | Fl v \<Rightarrow> Fl v)) a"
proof -
  let ?m = "if \<forall>c'\<in>set (concat a). c' = NaN then Fl 0 else nanmedian a"
  have rep: "(if nanmedian a = NaN then Fl 0 else nanmedian a) = ?m"
    by (simp only: nanmedian_NaN_iff)
  show ?thesis
  proof (cases "list_ex (\<lambda>c. c = NaN) (concat a)")
    case True
    then have "fill_nan a = nan_to_num (if nanmedian a = NaN then Fl 0 else nanmedian a) a"
      by (simp add: fill_nan_def Let_def)
    then show ?thesis unfolding rep nan_to_num_def .
  next
    case False
    then have "\<forall>r\<in>set a. \<forall>c\<in>set r. c \<noteq> NaN" by (auto simp: list_ex_iff)
    then have "map (map (\<lambda>c. case c of NaN \<Rightarrow> ?m | Fl v \<Rightarrow> Fl v)) a = map (map (\<lambda>c. c)) a"
      by (intro map_cong refl) (auto split: pyfloat.splits)
    then show ?thesis using False by (simp add: fill_nan_def)
  qed
qed

lemma fill_nan_no_nan: "NaN \<notin> set (concat (fill_nan a))"
proof -
  let ?m = "if \<forall>c'\<in>set (concat a). c' = NaN then Fl 0 else nanmedian a"
  let ?F = "\<lambda>c. case c of NaN \<Rightarrow> ?m | Fl v \<Rightarrow> Fl v"
  have m: "?m \<noteq> NaN"
  proof (cases "\<forall>c'\<in>set (concat a). c' = NaN")
    case True
    have e: "?m = Fl 0" using True by (rule if_P)
    show ?thesis unfolding e by (rule pyfloat.distinct)
  next
    case False
    have e: "?m = nanmedian a" using False by (rule if_not_P)
    have n: "nanmedian a \<noteq> NaN" using False nanmedian_NaN_iff[of a] by blast
    show ?thesis unfolding e by (rule n)
  qed
  have F: "?F c \<noteq> NaN" for c
  proof (cases c)
    case (Fl v)
    then show ?thesis by simp
  next
    case NaN
    then show ?thesis using m by simp
  qed
  have "concat (fill_nan a) = map ?F (concat a)"
    unfolding fill_nan_cells by (simp only: map_concat)
  then have "set (concat (fill_nan a)) = ?F ` set (concat a)" by (simp only: set_map)
  then show ?thesis using F by (metis (no_types, lifting) imageE)
qed

lemma heatmap_stage_Some:
  assumes "heatmap_stage env a f dots ov w = (Inr (Some hm), w')"
  shows "5 < length dots \<and>
         (\<exists>grid. griddata env (map fst dots) (map (\<lambda>(_, v). real (unat v) / 255) dots) f = Inr grid
                 \<and> hm = fill_nan (transpose grid))"
  using assms unfolding heatmap_stage_def
  by (auto simp: Let_def split: if_splits sum.splits prod.splits)

lemma before_comparison_Some_heatmap:
  assumes "fst (before_comparison env a w) = Inr (Some (g, f, Some hm, l))"
  shows "\<exists>(dots :: ((int \<times> int) \<times> 8 word) list) grid. 5 < length dots \<and>
           griddata env (map fst dots) (map (\<lambda>(_, v). real (unat v) / 255) dots) f = Inr grid
           \<and> hm = fill_nan (transpose grid)"
proof -
  obtain r0 w3 where d: "dot_extraction env a w = (r0, w3)" by (cases "dot_extraction env a w")
  from assms d obtain dots and dd :: addr and ov w4 w5 where
    "heatmap_stage env a f dots ov w4 = (Inr (Some hm), w5)"
    unfolding before_comparison_def
    by (auto split: sum.splits option.splits prod.splits if_splits)
  from heatmap_stage_Some[OF this] show ?thesis by blast
qed

text \<open>
  C5. Whenever step 7 constructs a heatmap, no cell of it is NaN: it is the transposed
  output of \<^verbatim>\<open>griddata\<close> in which every NaN cell holds the median of the defined
  cells, or 0 when no cell is defined, and every other cell keeps its value. (The
  heatmap is built for more than five dots.)
\<close>

theorem heatmap_has_no_nan:
  assumes "fst (before_comparison env a w) = Inr (Some (g, f, Some hm, loaded))"
  shows "NaN \<notin> set (concat hm)
       \<and> (\<exists>(dots :: ((int \<times> int) \<times> 8 word) list) grid. 5 < length dots
            \<and> griddata env (map fst dots) (map (\<lambda>(_, v). real (unat v) / 255) dots) f = Inr grid
            \<and> hm = map (map (\<lambda>c. case c of
                        NaN \<Rightarrow> (if \<forall>c'\<in>set (concat (transpose grid)). c' = NaN then Fl 0
                                 else nanmedian (transpose grid))
                      | Fl v \<Rightarrow> Fl v)) (transpose grid))"
proof -
  from before_comparison_Some_heatmap[OF assms]
  obtain dots :: "((int \<times> int) \<times> 8 word) list" and grid where
    l: "5 < length dots"
    and g: "griddata env (map fst dots) (map (\<lambda>(_, v). real (unat v) / 255) dots) f = Inr grid"
    and h: "hm = fill_nan (transpose grid)" by blast
  have "NaN \<notin> set (concat hm)" unfolding h by (rule fill_nan_no_nan)
  moreover have "hm = map (map (\<lambda>c. case c of
                        NaN \<Rightarrow> (if \<forall>c'\<in>set (concat (transpose grid)). c' = NaN then Fl 0
                                 else nanmedian (transpose grid))
                      | Fl v \<Rightarrow> Fl v)) (transpose grid)"
    unfolding h by (rule fill_nan_cells)
  ultimately show ?thesis using l g by blast
qed

theorem heatmap_has_no_nan_witness:
  "fst (before_comparison (example_env [(0, 0, 4, 4)] six_dots) 0 example_world)
     = Inr (Some (example_gray, (0, 0, 4, 4), Some example_heatmap, True))
   \<and> NaN \<notin> set (concat example_heatmap)"
proof -
  have h: "fst (before_comparison (example_env [(0, 0, 4, 4)] six_dots) 0 example_world)
     = Inr (Some (example_gray, (0, 0, 4, 4), Some example_heatmap, True))"
    by code_simp
  show ?thesis using h heatmap_has_no_nan[OF h] by blast
qed

section \<open>Dot intensities\<close>

lemma shape2_bitwise_not: "shape2 (bitwise_not g) = shape2 g"
  by (cases g) (simp_all add: shape2_def bitwise_not_def)

lemma index2_bitwise_not:
  "index2 (bitwise_not g) y x = Inr v \<Longrightarrow> index2 g y x = Inr (NOT v)"
  by (auto simp: index2_def bitwise_not_def split: if_splits)

lemma filter_face_dots_complement:
  "filter_face_dots env (bitwise_not gray0) f d kps w = (Inr dots, w') \<Longrightarrow>
   ((x, y), v) \<in> set dots \<Longrightarrow>
   index2 gray0 (max 0 (min y (fst (shape2 gray0) - 1)))
                (max 0 (min x (snd (shape2 gray0) - 1))) = Inr (NOT v)"
proof (induction kps arbitrary: w dots)
  case Nil
  then show ?case by simp
next
  case (Cons kp kps)
  obtain fx fy fw fh where f: "f = (fx, fy, fw, fh)" by (cases f) auto
  let ?x = "py_int (fst kp)" and ?y = "py_int (snd kp)"
  show ?case
  proof (cases "fx < ?x \<and> ?x < int32_add fx fw \<and> fy < ?y \<and> ?y < int32_add fy fh")
    case False
    then have "filter_face_dots env (bitwise_not gray0) f d (kp # kps) w
               = filter_face_dots env (bitwise_not gray0) f d kps w"
      by (auto simp: f Let_def)
    then show ?thesis using Cons by simp
  next
    case True
    let ?yc = "max 0 (min ?y (fst (shape2 gray0) - 1))"
    let ?xc = "max 0 (min ?x (snd (shape2 gray0) - 1))"
    let ?w1 = "store_at d (draw_circle env (cells w d) (?x, ?y)) w"
    from Cons.prems(1) True obtain i rest where
      i: "index2 (bitwise_not gray0) ?yc ?xc = Inr i" and
      r: "filter_face_dots env (bitwise_not gray0) f d kps ?w1 = (Inr rest, w')" and
      d: "dots = ((?x, ?y), i) # rest"
      by (auto simp: f Let_def shape2_bitwise_not split: sum.splits prod.splits)
    from Cons.prems(2) d consider "((x, y), v) = ((?x, ?y), i)" | "((x, y), v) \<in> set rest"
      by auto
    then show ?thesis
    proof cases
      case 1
      then show ?thesis using index2_bitwise_not[OF i] by simp
    next
      case 2
      then show ?thesis using Cons.IH[OF r] by simp
    qed
  qed
qed

lemma not_self: "NOT (v :: 8 word) \<noteq> v"
  by (metis bit_not_iff bit_0 even_not_iff)

lemma dot_extraction_dots:
  assumes "fst (dot_extraction env a w) = Inr (Some (g, f, dots, d, l))"
  shows "\<exists>gray0. cvtColor_BGR2GRAY env (cells w a) = Inr gray0 \<and> g = bitwise_not gray0
       \<and> (\<exists>kps w2 w3. filter_face_dots env g f d kps w2 = (Inr dots, w3))"
  using assms unfolding dot_extraction_def
  by (auto simp: alloc_def Let_def split: if_splits sum.splits prod.splits)

lemma recorded_intensity_is_complement:
  assumes "fst (dot_extraction env a w) = Inr (Some (g, f, dots, d, l))"
      and "((x, y), v) \<in> set dots"
  shows "\<exists>gray0 orig. cvtColor_BGR2GRAY env (cells w a) = Inr gray0
         \<and> index2 gray0 (max 0 (min y (fst (shape2 gray0) - 1)))
                          (max 0 (min x (snd (shape2 gray0) - 1))) = Inr orig
         \<and> v = NOT orig \<and> v \<noteq> orig"
proof -
  from dot_extraction_dots[OF assms(1)] obtain gray0 kps w2 w3 where
    c: "cvtColor_BGR2GRAY env (cells w a) = Inr gray0"
    and g: "g = bitwise_not gray0"
    and fl: "filter_face_dots env g f d kps w2 = (Inr dots, w3)" by blast
  from filter_face_dots_complement[OF fl[unfolded g] assms(2)] not_self[of v] c
  show ?thesis by (metis bit.double_compl)
qed

text \<open>
  C3 fails on the code. The name \<^verbatim>\<open>gray\<close> is rebound to
  \<^verbatim>\<open>cv2.bitwise_not(gray)\<close> in step 2, so step 6 reads the inverted image: for a
  frame whose original grayscale value at the dot is 200 the recorded intensity is 55.
  The lemma above shows the same for every frame and every retained dot: the recorded
  intensity is the complement of the original pixel and never equal to it.
\<close>

theorem dot_intensity_read_after_inversion:
  "cvtColor_BGR2GRAY (example_env [(0, 0, 4, 4)] [(3 / 2, 3 / 2)]) example_frame
     = Inr example_gray0
   \<and> index2 example_gray0 1 1 = Inr 200
   \<and> fst (dot_extraction (example_env [(0, 0, 4, 4)] [(3 / 2, 3 / 2)]) 0 example_world)
     = Inr (Some (example_gray, (0, 0, 4, 4), [((1, 1), 55)], 1, True))"
  by code_simp

section \<open>Face selection and the similarity window\<close>

lemma area_key_exact:
  assumes "0 \<le> fw * fh" "fw * fh < 2 ^ 31"
  shows "area_key (fx, fy, fw, fh) = fw * fh"
proof -
  have a: "signed_take_bit 31 (fw * fh) = fw * fh"
    using assms by (intro signed_take_bit_int_eq_self) auto
  have "sint (word_of_int (fw * fh) :: 32 word) = signed_take_bit (LENGTH(32) - 1) (fw * fh)"
    by (rule sint_sbintrunc')
  also have "\<dots> = fw * fh" using a by simp
  finally show ?thesis unfolding area_key_def by (simp only: prod.case)
qed

lemma last_sort_key_max:
  assumes "xs \<noteq> []"
  shows "last (sort_key k xs) \<in> set xs \<and> (\<forall>x\<in>set xs. k x \<le> k (last (sort_key k xs)))"
proof -
  let ?s = "sort_key k xs"
  have ne: "?s \<noteq> []" using assms by (metis length_sort length_0_conv)
  have srt: "sorted (map k ?s)" by simp
  have mem: "last ?s \<in> set xs" using ne last_in_set set_sort by metis
  have "\<forall>x\<in>set ?s. k x \<le> k (last ?s)"
  proof
    fix x assume "x \<in> set ?s"
    then obtain i where i: "i < length ?s" "?s ! i = x" unfolding in_set_conv_nth by blast
    have "map k ?s ! i \<le> map k ?s ! (length ?s - 1)"
      using srt i ne by (intro sorted_nth_mono) auto
    then show "k x \<le> k (last ?s)" using i ne by (simp add: last_conv_nth)
  qed
  then show ?thesis using mem by simp
qed

lemma primary_face_max:
  assumes "faces \<noteq> []"
  shows "\<exists>p. primary_face faces = Inr p \<and> p \<in> set faces
             \<and> (\<forall>f\<in>set faces. area_key f \<le> area_key p)"
proof -
  let ?s = "sort_key area_key (rev faces)"
  have ne: "?s \<noteq> []" using assms by (metis length_sort length_0_conv rev_is_Nil_conv)
  then have "?s = butlast ?s @ [last ?s]" by simp
  then have e: "rev ?s = last ?s # rev (butlast ?s)"
    by (metis rev.simps(2) rev_rev_ident rev_swap)
  have "primary_face faces = Inr (last ?s)"
    unfolding primary_face_def sorted_reverse_def e by simp
  moreover have "last ?s \<in> set (rev faces)
                 \<and> (\<forall>x\<in>set (rev faces). area_key x \<le> area_key (last ?s))"
    by (rule last_sort_key_max) (use assms in simp)
  ultimately show ?thesis by auto
qed

lemma primary_face_single: "primary_face [p] = Inr p"
  by (simp add: primary_face_def sorted_reverse_def)

lemma filter_face_dots_detector:
  "filter_face_dots (env\<lparr>detectMultiScale := d'\<rparr>) g f d kps w = filter_face_dots env g f d kps w"
  by (induction kps arbitrary: w) (auto simp: Let_def split: prod.splits sum.splits)

lemma heatmap_visualisation_detector:
  "heatmap_visualisation (env\<lparr>detectMultiScale := d'\<rparr>) a f hm ov w
   = heatmap_visualisation env a f hm ov w"
  by (simp add: heatmap_visualisation_def Let_def cong: sum.case_cong prod.case_cong option.case_cong if_cong)

lemma heatmap_stage_detector:
  "heatmap_stage (env\<lparr>detectMultiScale := d'\<rparr>) a f dots ov w = heatmap_stage env a f dots ov w"
  by (simp add: heatmap_stage_def heatmap_visualisation_detector Let_def cong: sum.case_cong prod.case_cong option.case_cong if_cong)

lemma depth_comparison_detector:
  "depth_comparison (env\<lparr>detectMultiScale := d'\<rparr>) frame g f h
   = depth_comparison env frame g f h"
  by (simp add: depth_comparison_def Let_def cong: sum.case_cong prod.case_cong option.case_cong if_cong)

lemma liveness_decision_detector:
  "liveness_decision (env\<lparr>detectMultiScale := d'\<rparr>) frame g f hm l
   = liveness_decision env frame g f hm l"
  by (simp add: liveness_decision_def depth_comparison_detector cong: sum.case_cong prod.case_cong option.case_cong if_cong)

lemma load_depth_model_detector:
  "load_depth_model (env\<lparr>detectMultiScale := d'\<rparr>) = load_depth_model env"
  by (simp add: load_depth_model_def cong: sum.case_cong)

lemma copy_read: "((cells w)(fresh w := cells w a)) a = cells w a"
  by simp

lemma dot_extraction_detector:
  assumes "cvtColor_BGR2GRAY env (cells w a) = Inr gray0"
      and "faces = detectMultiScale env gray0"
      and "faces \<noteq> []" and "primary_face faces = Inr p"
  shows "dot_extraction (env\<lparr>detectMultiScale := (\<lambda>_. [p])\<rparr>) a w = dot_extraction env a w"
  using assms unfolding dot_extraction_def
  by (simp add: alloc_def Let_def primary_face_single filter_face_dots_detector copy_read
        load_depth_model_detector
        del: fun_upd_apply cong: sum.case_cong prod.case_cong option.case_cong if_cong)

lemma perform_liveness_check_detector:
  assumes "cvtColor_BGR2GRAY env (cells w a) = Inr gray0"
      and "faces = detectMultiScale env gray0"
      and "faces \<noteq> []" and "primary_face faces = Inr p"
  shows "perform_liveness_check (env\<lparr>detectMultiScale := (\<lambda>_. [p])\<rparr>) a w
         = perform_liveness_check env a w"
  unfolding perform_liveness_check_def before_comparison_def
  by (simp add: dot_extraction_detector[OF assms] heatmap_stage_detector
        liveness_decision_detector cong: sum.case_cong prod.case_cong option.case_cong if_cong)

text \<open>
  What steps 1 to 6 hand on when the detector returns boxes: the dot loop runs on the
  selected box, and its result is the result of the steps.
\<close>

lemma dot_extraction_primary:
  assumes "cvtColor_BGR2GRAY env (cells w a) = Inr gray0"
      and "\<not> cascade_empty env"
      and "load_depth_model env = Inr (depth_processor, depth_model)"
      and "detectMultiScale env gray0 \<noteq> []"
      and "primary_face (detectMultiScale env gray0) = Inr p"
  shows "\<exists>w2. dot_extraction env a w =
           (case filter_face_dots env (bitwise_not gray0) p (fresh w)
                   (blob_detect env (dilate env (erode env (adaptiveThreshold env
                      (clahe_apply env (bitwise_not gray0)))))) w2 of
              (Inl e, w3) \<Rightarrow> (Inl e, w3)
            | (Inr dots, w3) \<Rightarrow>
                (Inr (Some (bitwise_not gray0, p, dots, fresh w,
                            depth_model \<and> depth_processor)), w3))"
proof -
  obtain px py pw ph where p: "p = (px, py, pw, ph)" by (cases p) auto
  show ?thesis
    using assms unfolding dot_extraction_def p
    by (simp add: alloc_def Let_def copy_read del: fun_upd_apply) blast
qed

lemma filter_face_dots_inside:
  "filter_face_dots env g (fx, fy, fw, fh) d kps w = (Inr dots, w') \<Longrightarrow>
   ((x, y), v) \<in> set dots \<Longrightarrow>
   fx < x \<and> x < int32_add fx fw \<and> fy < y \<and> y < int32_add fy fh
   \<and> (\<exists>kp\<in>set kps. x = py_int (fst kp) \<and> y = py_int (snd kp))"
proof (induction kps arbitrary: w dots)
  case Nil
  then show ?case by simp
next
  case (Cons kp kps)
  let ?x = "py_int (fst kp)" and ?y = "py_int (snd kp)"
  show ?case
  proof (cases "fx < ?x \<and> ?x < int32_add fx fw \<and> fy < ?y \<and> ?y < int32_add fy fh")
    case False
    then have "filter_face_dots env g (fx, fy, fw, fh) d (kp # kps) w
               = filter_face_dots env g (fx, fy, fw, fh) d kps w"
      by (auto simp: Let_def)
    then show ?thesis using Cons by auto
  next
    case True
    let ?w1 = "store_at d (draw_circle env (cells w d) (?x, ?y)) w"
    from Cons.prems(1) True obtain i rest where
      r: "filter_face_dots env g (fx, fy, fw, fh) d kps ?w1 = (Inr rest, w')" and
      d: "dots = ((?x, ?y), i) # rest"
      by (auto simp: Let_def split: sum.splits prod.splits)
    from Cons.prems(2) d consider "((x, y), v) = ((?x, ?y), i)" | "((x, y), v) \<in> set rest"
      by auto
    then show ?thesis
    proof cases
      case 1
      then show ?thesis using True by simp
    next
      case 2
      then show ?thesis using Cons.IH[OF r] by auto
    qed
  qed
qed

lemma before_comparison_dots:
  assumes "fst (before_comparison env a w) = Inr (Some (g, f, hm, l))"
  shows "\<exists>(dots :: ((int \<times> int) \<times> 8 word) list) (d :: addr).
           fst (dot_extraction env a w) = Inr (Some (g, f, dots, d, l))
           \<and> (\<forall>h. hm = Some h \<longrightarrow>
                 5 < length dots
                 \<and> (\<exists>grid. griddata env (map fst dots)
                              (map (\<lambda>(_, v). real (unat v) / 255) dots) f = Inr grid
                           \<and> h = fill_nan (transpose grid)))"
proof -
  obtain r0 w3 where d: "dot_extraction env a w = (r0, w3)" by (cases "dot_extraction env a w")
  from assms d obtain dots and dd :: addr and ov w4 w5 where
    r0: "r0 = Inr (Some (g, f, dots, dd, l))"
    and hs: "heatmap_stage env a f dots ov w4 = (Inr hm, w5)"
    unfolding before_comparison_def
    by (auto split: sum.splits option.splits prod.splits if_splits)
  have "5 < length dots
        \<and> (\<exists>grid. griddata env (map fst dots)
                     (map (\<lambda>(_, v). real (unat v) / 255) dots) f = Inr grid
                  \<and> h = fill_nan (transpose grid))" if "hm = Some h" for h
    using heatmap_stage_Some[OF hs[unfolded that]] .
  then show ?thesis using d r0 by auto
qed

text \<open>
  C10. When the detector returns boxes (whose areas fit the int32 product of the sort
  key, as the boxes of any image OpenCV decodes do), one of them with maximal width
  times height is selected, and it is the box the rest of the check works on: the dot
  loop runs with it on the blob keypoints and keeps only dots strictly inside it, the
  heatmap is interpolated over it, and the verdict is the decision of step 8 for it.
  The check runs exactly as if the detector had returned that box alone, so the other
  boxes play no part.
\<close>

theorem largest_face_is_processed:
  assumes "a < fresh w"
      and "cvtColor_BGR2GRAY env (cells w a) = Inr gray0"
      and "\<not> cascade_empty env"
      and "load_depth_model env = Inr (depth_processor, depth_model)"
      and "faces = detectMultiScale env gray0"
      and "faces \<noteq> []"
      and "\<forall>f\<in>set faces. case f of (fx, fy, fw, fh) \<Rightarrow> 0 \<le> fw * fh \<and> fw * fh < 2 ^ 31"
  shows "\<exists>p\<in>set faces. primary_face faces = Inr p
           \<and> (\<forall>f\<in>set faces. (case f of (fx, fy, fw, fh) \<Rightarrow> fw * fh)
                                \<le> (case p of (px, py, pw, ph) \<Rightarrow> pw * ph))
           \<and> (\<exists>w2. fst (dot_extraction env a w) =
                 (case fst (filter_face_dots env (bitwise_not gray0) p (fresh w)
                              (blob_detect env (dilate env (erode env (adaptiveThreshold env
                                 (clahe_apply env (bitwise_not gray0)))))) w2) of
                    Inl e \<Rightarrow> Inl e
                  | Inr dots \<Rightarrow>
                      Inr (Some (bitwise_not gray0, p, dots, fresh w,
                                 depth_model \<and> depth_processor))))
           \<and> (\<forall>g f dots d l. fst (dot_extraction env a w) = Inr (Some (g, f, dots, d, l)) \<longrightarrow>
                 f = p
                 \<and> (\<forall>x y v. ((x, y), v) \<in> set dots \<longrightarrow>
                      (case p of (px, py, pw, ph) \<Rightarrow>
                         px < x \<and> x < int32_add px pw \<and> py < y \<and> y < int32_add py ph)))
           \<and> (\<forall>g f hm l. fst (before_comparison env a w) = Inr (Some (g, f, hm, l)) \<longrightarrow>
                 f = p
                 \<and> (\<forall>h. hm = Some h \<longrightarrow>
                      (\<exists>(dots :: ((int \<times> int) \<times> 8 word) list) grid.
                         griddata env (map fst dots)
                           (map (\<lambda>(_, v). real (unat v) / 255) dots) p = Inr grid
                         \<and> h = fill_nan (transpose grid)))
                 \<and> fst (perform_liveness_check env a w) =
                     (case liveness_decision env (cells w a) g p hm l of
                        Inl e \<Rightarrow> Inl e
                      | Inr (live, score) \<Rightarrow>
                          Inr \<lparr>is_live = live, similarity_score = Some score,
                               heatmap_norm = hm\<rparr>))
           \<and> perform_liveness_check (env\<lparr>detectMultiScale := (\<lambda>_. [p])\<rparr>) a w
               = perform_liveness_check env a w"
proof -
  from primary_face_max[OF assms(6)] obtain p where
    p: "primary_face faces = Inr p" "p \<in> set faces"
    and mx: "\<forall>f\<in>set faces. area_key f \<le> area_key p" by blast
  obtain px py pw ph where pp: "p = (px, py, pw, ph)" by (cases p) auto
  have key: "area_key f = (case f of (fx, fy, fw, fh) \<Rightarrow> fw * fh)" if "f \<in> set faces" for f
  proof -
    obtain fx fy fw fh where f: "f = (fx, fy, fw, fh)" by (cases f) auto
    have "0 \<le> fw * fh \<and> fw * fh < 2 ^ 31" using assms(7) that f by auto
    then show ?thesis unfolding f by (simp add: area_key_exact)
  qed
  have c1: "\<forall>f\<in>set faces. (case f of (fx, fy, fw, fh) \<Rightarrow> fw * fh)
                        \<le> (case p of (px, py, pw, ph) \<Rightarrow> pw * ph)"
  proof
    fix f assume f: "f \<in> set faces"
    have "area_key f \<le> area_key p" using mx f by blast
    then show "(case f of (fx, fy, fw, fh) \<Rightarrow> fw * fh) \<le> (case p of (px, py, pw, ph) \<Rightarrow> pw * ph)"
      using key[OF f] key[OF p(2)] by simp
  qed
  let ?g = "bitwise_not gray0"
  let ?kps = "blob_detect env (dilate env (erode env (adaptiveThreshold env (clahe_apply env ?g))))"
  from dot_extraction_primary[OF assms(2,3,4) assms(6)[unfolded assms(5)] p(1)[unfolded assms(5)]]
  obtain w2 where de: "dot_extraction env a w =
           (case filter_face_dots env ?g p (fresh w) ?kps w2 of
              (Inl e, w3) \<Rightarrow> (Inl e, w3)
            | (Inr dots, w3) \<Rightarrow>
                (Inr (Some (?g, p, dots, fresh w, depth_model \<and> depth_processor)), w3))"
    by blast
  obtain r w3 where fl: "filter_face_dots env ?g p (fresh w) ?kps w2 = (r, w3)"
    by (cases "filter_face_dots env ?g p (fresh w) ?kps w2")
  have c2: "fst (dot_extraction env a w) =
              (case fst (filter_face_dots env ?g p (fresh w) ?kps w2) of
                 Inl e \<Rightarrow> Inl e
               | Inr dots \<Rightarrow> Inr (Some (?g, p, dots, fresh w, depth_model \<and> depth_processor)))"
    unfolding de fl by (cases r) simp_all
  have c3: "f = p \<and> (\<forall>x y v. ((x, y), v) \<in> set dots \<longrightarrow>
                      (case p of (px, py, pw, ph) \<Rightarrow>
                         px < x \<and> x < int32_add px pw \<and> py < y \<and> y < int32_add py ph))"
    if e: "fst (dot_extraction env a w) = Inr (Some (g, f, dots, d, l))" for g f dots d l
  proof -
    from e have r: "r = Inr dots" and fp: "f = p" unfolding de fl by (cases r; simp)+
    have "px < x \<and> x < int32_add px pw \<and> py < y \<and> y < int32_add py ph"
      if "((x, y), v) \<in> set dots" for x y v
      using filter_face_dots_inside[OF fl[unfolded r pp] that] by blast
    then show ?thesis using fp unfolding pp by simp
  qed
  have c4: "f = p
          \<and> (\<forall>h. hm = Some h \<longrightarrow>
                (\<exists>(dots :: ((int \<times> int) \<times> 8 word) list) grid.
                   griddata env (map fst dots)
                     (map (\<lambda>(_, v). real (unat v) / 255) dots) p = Inr grid
                   \<and> h = fill_nan (transpose grid)))
          \<and> fst (perform_liveness_check env a w) =
              (case liveness_decision env (cells w a) g p hm l of
                 Inl e \<Rightarrow> Inl e
               | Inr (live, score) \<Rightarrow>
                   Inr \<lparr>is_live = live, similarity_score = Some score, heatmap_norm = hm\<rparr>)"
    if b: "fst (before_comparison env a w) = Inr (Some (g, f, hm, l))" for g f hm l
  proof -
    from before_comparison_dots[OF b] obtain dots :: "((int \<times> int) \<times> 8 word) list"
      and d :: addr where
      e: "fst (dot_extraction env a w) = Inr (Some (g, f, dots, d, l))"
      and h: "\<forall>h. hm = Some h \<longrightarrow>
                 5 < length dots
                 \<and> (\<exists>grid. griddata env (map fst dots)
                              (map (\<lambda>(_, v). real (unat v) / 255) dots) f = Inr grid
                           \<and> h = fill_nan (transpose grid))"
      by blast
    have fp: "f = p" using c3[OF e] by simp
    show ?thesis
      using h perform_liveness_check_after[OF b assms(1)] unfolding fp by blast
  qed
  have c5: "perform_liveness_check (env\<lparr>detectMultiScale := (\<lambda>_. [p])\<rparr>) a w
            = perform_liveness_check env a w"
    by (rule perform_liveness_check_detector[OF assms(2,5,6) p(1)])
  have "\<exists>w2. fst (dot_extraction env a w) =
              (case fst (filter_face_dots env ?g p (fresh w) ?kps w2) of
                 Inl e \<Rightarrow> Inl e
               | Inr dots \<Rightarrow> Inr (Some (?g, p, dots, fresh w, depth_model \<and> depth_processor)))"
    using c2 by blast
  with p c1 c3 c4 c5 show ?thesis by blast
qed

theorem largest_face_is_processed_witness:
  "0 < fresh example_world
   \<and> cvtColor_BGR2GRAY (example_env [(0, 0, 2, 2), (0, 0, 4, 4), (1, 1, 3, 3)] six_dots)
       (cells example_world 0) = Inr example_gray0
   \<and> \<not> cascade_empty (example_env [(0, 0, 2, 2), (0, 0, 4, 4), (1, 1, 3, 3)] six_dots)
   \<and> load_depth_model (example_env [(0, 0, 2, 2), (0, 0, 4, 4), (1, 1, 3, 3)] six_dots)
       = Inr (True, True)
   \<and> detectMultiScale (example_env [(0, 0, 2, 2), (0, 0, 4, 4), (1, 1, 3, 3)] six_dots)
       example_gray0 = [(0, 0, 2, 2), (0, 0, 4, 4), (1, 1, 3, 3)]
   \<and> primary_face [(0, 0, 2, 2), (0, 0, 4, 4), (1, 1, 3, 3)] = Inr (0, 0, 4, 4)
   \<and> fst (dot_extraction (example_env [(0, 0, 2, 2), (0, 0, 4, 4), (1, 1, 3, 3)] six_dots)
            0 example_world)
     = Inr (Some (example_gray, (0, 0, 4, 4),
                  [((1, 1), 55), ((2, 1), 55), ((1, 2), 55), ((2, 2), 55), ((1, 2), 55),
                   ((2, 1), 55)], 1, True))
   \<and> fst (before_comparison (example_env [(0, 0, 2, 2), (0, 0, 4, 4), (1, 1, 3, 3)] six_dots)
            0 example_world)
     = Inr (Some (example_gray, (0, 0, 4, 4), Some example_heatmap, True))
   \<and> liveness_decision (example_env [(0, 0, 2, 2), (0, 0, 4, 4), (1, 1, 3, 3)] six_dots)
       (cells example_world 0) example_gray (0, 0, 4, 4) (Some example_heatmap) True
     = Inr (True, Fl (9 / 10))
   \<and> fst (perform_liveness_check
            (example_env [(0, 0, 2, 2), (0, 0, 4, 4), (1, 1, 3, 3)] six_dots) 0 example_world)
     = Inr \<lparr>is_live = True, similarity_score = Some (Fl (9 / 10)),
            heatmap_norm = Some example_heatmap\<rparr>
   \<and> perform_liveness_check (example_env [(0, 0, 4, 4)] six_dots) 0 example_world
     = perform_liveness_check (example_env [(0, 0, 2, 2), (0, 0, 4, 4), (1, 1, 3, 3)] six_dots)
         0 example_world"
proof -
  let ?faces = "[(0, 0, 2, 2), (0, 0, 4, 4), (1, 1, 3, 3)] :: face list"
  let ?env = "example_env ?faces six_dots"
  have h1: "0 < fresh example_world" by (simp add: example_world_def)
  have h2: "cvtColor_BGR2GRAY ?env (cells example_world 0) = Inr example_gray0" by code_simp
  have h3: "\<not> cascade_empty ?env" by (simp add: example_env_def)
  have h4: "load_depth_model ?env = Inr (True, True)"
    by (simp add: load_depth_model_def example_env_def)
  have h5: "?faces = detectMultiScale ?env example_gray0" by (simp add: example_env_def)
  have h6: "?faces \<noteq> []" by simp
  have h7: "\<forall>f\<in>set ?faces. case f of (fx, fy, fw, fh) \<Rightarrow> 0 \<le> fw * fh \<and> fw * fh < 2 ^ 31"
    by simp
  have pf: "primary_face ?faces = Inr (0, 0, 4, 4)" by code_simp
  have de: "fst (dot_extraction ?env 0 example_world)
            = Inr (Some (example_gray, (0, 0, 4, 4),
                  [((1, 1), 55), ((2, 1), 55), ((1, 2), 55), ((2, 2), 55), ((1, 2), 55),
                   ((2, 1), 55)], 1, True))"
    by code_simp
  have bc: "fst (before_comparison ?env 0 example_world)
            = Inr (Some (example_gray, (0, 0, 4, 4), Some example_heatmap, True))"
    by code_simp
  have ld: "liveness_decision ?env (cells example_world 0) example_gray (0, 0, 4, 4)
              (Some example_heatmap) True = Inr (True, Fl (9 / 10))"
    by code_simp
  have upd: "?env\<lparr>detectMultiScale := (\<lambda>_. [(0, 0, 4, 4)])\<rparr> = example_env [(0, 0, 4, 4)] six_dots"
    by (simp add: example_env_def)
  from largest_face_is_processed[OF h1 h2 h3 h4 h5 h6 h7] pf
  have t1: "\<forall>g f hm l. fst (before_comparison ?env 0 example_world) = Inr (Some (g, f, hm, l)) \<longrightarrow>
              fst (perform_liveness_check ?env 0 example_world) =
                (case liveness_decision ?env (cells example_world 0) g (0, 0, 4, 4) hm l of
                   Inl e \<Rightarrow> Inl e
                 | Inr (live, score) \<Rightarrow>
                     Inr \<lparr>is_live = live, similarity_score = Some score, heatmap_norm = hm\<rparr>)"
    and t2: "perform_liveness_check (?env\<lparr>detectMultiScale := (\<lambda>_. [(0, 0, 4, 4)])\<rparr>) 0
               example_world
             = perform_liveness_check ?env 0 example_world"
    by auto
  from t1 bc have "fst (perform_liveness_check ?env 0 example_world) =
                (case liveness_decision ?env (cells example_world 0) example_gray (0, 0, 4, 4)
                        (Some example_heatmap) True of
                   Inl e \<Rightarrow> Inl e
                 | Inr (live, score) \<Rightarrow>
                     Inr \<lparr>is_live = live, similarity_score = Some score,
                          heatmap_norm = Some example_heatmap\<rparr>)"
    by blast
  then have pl: "fst (perform_liveness_check ?env 0 example_world)
            = Inr \<lparr>is_live = True, similarity_score = Some (Fl (9 / 10)),
                   heatmap_norm = Some example_heatmap\<rparr>"
    unfolding ld by simp
  show ?thesis using h1 h2 h3 h4 h5[symmetric] pf de bc ld pl t2 unfolding upd by simp
qed

lemma ssim_win_size_odd: "odd (ssim_win_size h w) \<and> 3 \<le> ssim_win_size h w \<and> ssim_win_size h w \<le> 7"
  unfolding ssim_win_size_def Let_def min_def by auto

lemma ssim_win_size_even_side:
  assumes "even h" and "2 \<le> h" and "h < 7" and "h \<le> w"
  shows "ssim_win_size h w = h + 1 \<and> ssim_win_size w h = h + 1"
proof -
  have rh: "h div 2 * 2 + 1 = h + 1" using assms(1) by presburger
  have rw: "h + 1 \<le> w div 2 * 2 + 1" using assms(1,4) by presburger
  show ?thesis
    unfolding ssim_win_size_def Let_def rh using rw assms(2,3) by (simp add: min_def)
qed


end
